theory Spec2Isabelle
  imports Complex_Main "HOL-Library.Log_Nat" "HOL-Library.List_Lexorder"
begin

section \<open>JavaScript numbers\<close>

text \<open>
  Every number of the program is an IEEE-754 binary64 value.  A finite value is kept as
  the rational it denotes; \<open>NaN\<close> and the two infinities are values of their own.  Not
  every rational is a binary64 value: a statement about every \<open>Fin x\<close> covers the finite
  binary64 values among them, and every arithmetic result is rounded by \<open>to_number\<close>.  The
  two zeros are one value: the program never divides by a zero, and no other operation
  it uses (comparison, \<open>+\<close>, \<open>-\<close>, \<open>*\<close>, \<open>Math.round\<close>, \<open>Math.min\<close>, \<open>Math.max\<close>,
  \<open>toFixed\<close>) lets a result that is not a zero depend on the sign of a zero.
\<close>

datatype number = NaN | NegInf | Fin rat | PosInf

text \<open>\<open>ilog2 x\<close> is the binary exponent of a positive \<open>x\<close>: \<open>2^e \<le> x < 2^(e+1)\<close>.\<close>

definition ilog2 :: "rat \<Rightarrow> int" where
  "ilog2 x = (if 1 \<le> x then bitlen \<lfloor>x\<rfloor> - 1 else - bitlen (\<lceil>1 / x\<rceil> - 1))"

text \<open>Nearest integer, a tie going to the even neighbour.\<close>

definition round_even :: "rat \<Rightarrow> int" where
  "round_even y =
     (let n = \<lfloor>y\<rfloor>; d = y - of_int n
      in if d < 1 / 2 then n else if 1 / 2 < d then n + 1 else if even n then n else n + 1)"

text \<open>
  \<open>fl x\<close> is \<open>x\<close> rounded to the nearest value with a 53-bit significand (round to
  nearest, ties to even), the exponent being unbounded above and held at \<open>-1022\<close> below
  (subnormal numbers).
\<close>

definition fl :: "rat \<Rightarrow> rat" where
  "fl x =
     (if x = 0 then 0
      else let u = 2 powi (max (ilog2 \<bar>x\<bar>) (- 1022) - 52)
           in of_int (round_even (x / u)) * u)"

text \<open>The binary64 result of an operation whose exact result is \<open>x\<close>; it overflows to an infinity.\<close>

definition to_number :: "rat \<Rightarrow> number" where
  "to_number x =
     (let y = fl x
      in if 2 ^ 1024 \<le> y then PosInf else if y \<le> - (2 ^ 1024) then NegInf else Fin y)"

subsection \<open>Comparison\<close>

text \<open>\<open>a < b\<close>; every comparison with \<open>NaN\<close> is false.\<close>

fun lt :: "number \<Rightarrow> number \<Rightarrow> bool" where
  "lt NaN b = False"
| "lt a NaN = False"
| "lt a NegInf = False"
| "lt PosInf b = False"
| "lt NegInf b = True"
| "lt (Fin x) PosInf = True"
| "lt (Fin x) (Fin y) = (x < y)"

text \<open>\<open>a <= b\<close>\<close>

fun le :: "number \<Rightarrow> number \<Rightarrow> bool" where
  "le NaN b = False"
| "le a NaN = False"
| "le NegInf b = True"
| "le a PosInf = True"
| "le a NegInf = False"
| "le PosInf b = False"
| "le (Fin x) (Fin y) = (x \<le> y)"

text \<open>\<open>a > b\<close> and \<open>a >= b\<close>\<close>

definition gt :: "number \<Rightarrow> number \<Rightarrow> bool" where
  "gt a b = lt b a"

definition ge :: "number \<Rightarrow> number \<Rightarrow> bool" where
  "ge a b = le b a"

subsection \<open>Arithmetic\<close>

fun fneg :: "number \<Rightarrow> number" where
  "fneg NaN = NaN"
| "fneg NegInf = PosInf"
| "fneg PosInf = NegInf"
| "fneg (Fin x) = Fin (- x)"

fun fadd :: "number \<Rightarrow> number \<Rightarrow> number" where
  "fadd NaN b = NaN"
| "fadd a NaN = NaN"
| "fadd PosInf NegInf = NaN"
| "fadd NegInf PosInf = NaN"
| "fadd PosInf b = PosInf"
| "fadd NegInf b = NegInf"
| "fadd a PosInf = PosInf"
| "fadd a NegInf = NegInf"
| "fadd (Fin x) (Fin y) = to_number (x + y)"

definition fsub :: "number \<Rightarrow> number \<Rightarrow> number" where
  "fsub a b = fadd a (fneg b)"

text \<open>The sign of a number: \<open>-1\<close>, \<open>0\<close>, \<open>1\<close>; \<open>NaN\<close> has none.\<close>

fun fsgn :: "number \<Rightarrow> int option" where
  "fsgn NaN = None"
| "fsgn NegInf = Some (- 1)"
| "fsgn PosInf = Some 1"
| "fsgn (Fin x) = Some (if x < 0 then - 1 else if x = 0 then 0 else 1)"

definition inf_of_sign :: "int \<Rightarrow> number" where
  "inf_of_sign s = (if s = 0 then NaN else if 0 < s then PosInf else NegInf)"

fun fmul :: "number \<Rightarrow> number \<Rightarrow> number" where
  "fmul (Fin x) (Fin y) = to_number (x * y)"
| "fmul a b =
     (case (fsgn a, fsgn b) of
        (Some s, Some t) \<Rightarrow> inf_of_sign (s * t)
      | _ \<Rightarrow> NaN)"

text \<open>Division; a zero divisor is the positive zero.\<close>

fun fdiv :: "number \<Rightarrow> number \<Rightarrow> number" where
  "fdiv (Fin x) (Fin y) =
     (if y = 0 then inf_of_sign (if x < 0 then - 1 else if x = 0 then 0 else 1)
      else to_number (x / y))"
| "fdiv NaN b = NaN"
| "fdiv a NaN = NaN"
| "fdiv (Fin x) b = Fin 0"
| "fdiv a (Fin y) = (case fsgn a of Some s \<Rightarrow> inf_of_sign (if y < 0 then - s else s) | None \<Rightarrow> NaN)"
| "fdiv a b = NaN"

text \<open>A decimal literal of the source denotes the nearest binary64 value.\<close>

definition lit :: "rat \<Rightarrow> number" where
  "lit q = to_number q"

subsection \<open>\<open>Math.round\<close>, \<open>Math.min\<close>, \<open>Math.max\<close>\<close>

text \<open>\<open>Math.round\<close>: the nearest integer, a tie going up (towards \<open>+Infinity\<close>).\<close>

fun Math_round :: "number \<Rightarrow> number" where
  "Math_round (Fin x) = Fin (of_int \<lfloor>x + 1 / 2\<rfloor>)"
| "Math_round a = a"

fun Math_min :: "number \<Rightarrow> number \<Rightarrow> number" where
  "Math_min NaN b = NaN"
| "Math_min a NaN = NaN"
| "Math_min a b = (if le a b then a else b)"

fun Math_max :: "number \<Rightarrow> number \<Rightarrow> number" where
  "Math_max NaN b = NaN"
| "Math_max a NaN = NaN"
| "Math_max a b = (if le a b then b else a)"

section \<open>scoring.js: the score calculator\<close>

definition clamp :: "number \<Rightarrow> number \<Rightarrow> number \<Rightarrow> number" where
  "clamp n mn mx = Math_max mn (Math_min mx n)"

definition computeErScore :: "number \<Rightarrow> number" where
  "computeErScore er =
     (if ge er (lit (6 / 100)) then Fin 100
      else if ge er (lit (3 / 100)) then Fin 70
      else if ge er (lit (15 / 1000)) then Fin 45
      else Fin 20)"

definition computeConsistencyScore :: "number \<Rightarrow> number" where
  "computeConsistencyScore contentsPerWeek =
     (if ge contentsPerWeek (Fin 4) then Fin 100
      else if ge contentsPerWeek (Fin 2) then Fin 70
      else if ge contentsPerWeek (Fin 1) then Fin 40
      else Fin 20)"

definition computeNicheScore :: "number \<Rightarrow> number" where
  "computeNicheScore confidence =
     (if ge confidence (lit (75 / 100)) then Fin 100
      else if ge confidence (lit (6 / 10)) then Fin 75
      else if ge confidence (lit (45 / 100)) then Fin 55
      else Fin 35)"

text \<open>\<open>None\<close> is the \<open>null\<close> that stands for "reach unavailable".\<close>

definition computeReachScore :: "bool \<Rightarrow> number \<Rightarrow> number option" where
  "computeReachScore reachAvailable ratio =
     (if \<not> reachAvailable then None
      else if ge ratio (lit (12 / 10)) then Some (Fin 100)
      else if ge ratio (lit (8 / 10)) then Some (Fin 75)
      else if ge ratio (lit (5 / 10)) then Some (Fin 55)
      else Some (Fin 35))"

definition computeFraudPenalty :: "number \<Rightarrow> number \<Rightarrow> number \<Rightarrow> number" where
  "computeFraudPenalty er followers contentCount30d =
     (let p = Fin 0;
          p = (if gt followers (Fin 20000) \<and> lt er (lit (8 / 1000)) then fadd p (Fin 10) else p);
          p = (if gt followers (Fin 50000) \<and> lt contentCount30d (Fin 4) then fadd p (Fin 10) else p);
          p = (if gt er (lit (12 / 100)) \<and> lt contentCount30d (Fin 6) then fadd p (Fin 10) else p)
      in clamp p (Fin 0) (Fin 30))"

text \<open>
  \<open>reachScore\<close> is \<open>None\<close> when the caller passes \<open>null\<close>; \<open>typeof reachScore === 'number'\<close>
  is then false.
\<close>

definition computeTotalScore ::
  "number \<Rightarrow> number option \<Rightarrow> number \<Rightarrow> number \<Rightarrow> number \<Rightarrow> bool \<Rightarrow> number" where
  "computeTotalScore erScore reachScore consistencyScore nicheScore fraudPenalty reachAvailable =
     (case (if reachAvailable then reachScore else None) of
        Some r \<Rightarrow>
          (let total = fsub (fadd (fadd (fadd (fmul (lit (30 / 100)) erScore)
                                               (fmul (lit (25 / 100)) r))
                                         (fmul (lit (20 / 100)) consistencyScore))
                                   (fmul (lit (15 / 100)) nicheScore))
                             (fmul (lit (10 / 100)) fraudPenalty)
           in clamp (Math_round total) (Fin 0) (Fin 100))
      | None \<Rightarrow>
          (let total = fsub (fadd (fadd (fmul (lit (40 / 100)) erScore)
                                         (fmul (lit (25 / 100)) consistencyScore))
                                   (fmul (lit (20 / 100)) nicheScore))
                             (fmul (lit (15 / 100)) fraudPenalty)
           in clamp (Math_round total) (Fin 0) (Fin 100)))"

datatype grade_letter = A | B | C

definition grade :: "number \<Rightarrow> grade_letter" where
  "grade score = (if ge score (Fin 80) then A else if ge score (Fin 60) then B else C)"

subsection \<open>The total in the words of the specification\<close>

text \<open>
  The weighted sum as the specification writes it, in exact arithmetic over integer
  sub-scores: the first formula where a reach score is given, the reweighted one where it
  is not.  \<open>computeTotalScore\<close> is compared with it below.
\<close>

definition weighted_sum :: "int \<Rightarrow> int option \<Rightarrow> int \<Rightarrow> int \<Rightarrow> int \<Rightarrow> rat" where
  "weighted_sum ER Reach Consistency Niche FraudPenalty =
     (case Reach of
        Some r \<Rightarrow> 30 / 100 * of_int ER + 25 / 100 * of_int r + 20 / 100 * of_int Consistency
                  + 15 / 100 * of_int Niche - 10 / 100 * of_int FraudPenalty
      | None \<Rightarrow> 40 / 100 * of_int ER + 25 / 100 * of_int Consistency + 20 / 100 * of_int Niche
                  - 15 / 100 * of_int FraudPenalty)"

section \<open>Strings\<close>

text \<open>
  A JavaScript string is a sequence of UTF-16 code units.  \<open>str\<close> turns an ASCII literal
  into its code units; a character outside ASCII is written as its code unit (all of the
  source's are single units of the Latin-1 range, for instance 250 for u with acute).
\<close>

type_synonym jsstring = "nat list"

definition str :: "string \<Rightarrow> jsstring" where
  "str s = map of_char s"

fun startsWith :: "jsstring \<Rightarrow> jsstring \<Rightarrow> bool" where
  "startsWith text [] = True"
| "startsWith [] (c # w) = False"
| "startsWith (t # text) (c # w) = (t = c \<and> startsWith text w)"

text \<open>\<open>text.includes(w)\<close>: \<open>w\<close> occurs in \<open>text\<close> as a contiguous substring.\<close>

fun str_includes :: "jsstring \<Rightarrow> jsstring \<Rightarrow> bool" where
  "str_includes [] w = (w = [])"
| "str_includes (t # text) w = (startsWith (t # text) w \<or> str_includes text w)"

section \<open>scoring.js: the niche classifier\<close>

text \<open>The dictionary, in the enumeration order of the object literal.\<close>

definition DICTS :: "(jsstring \<times> jsstring list) list" where
  "DICTS =
     [(str ''food'',
       [str ''restaurante'', str ''sushi'', str ''comida'', str ''delivery'',
        str ''men'' @ [250], str ''menu'', str ''tapas'',
        str ''rese'' @ [241] @ str ''a'', str ''cocina'', str ''chef'',
        str ''hamburg'', str ''ramen'', str ''poke'', str ''izakaya'']),
      (str ''beauty'',
       [str ''maquillaje'', str ''skincare'', str ''u'' @ [241] @ str ''as'',
        str ''est'' @ [233] @ str ''tica'', str ''pelo'', str ''cabello'',
        str ''dermo'', str ''beauty'', str ''cosm'' @ [233] @ str ''tica'',
        str ''cosmetica'']),
      (str ''fitness'',
       [str ''gym'', str ''treino'', str ''entreno'',
        str ''prote'' @ [237] @ str ''na'', str ''proteina'', str ''dieta'',
        str ''fitness'', str ''perder peso'',
        str ''p'' @ [233] @ str ''rdida'',
        str ''musculaci'' @ [243] @ str ''n'', str ''musculacion'']),
      (str ''tech'',
       [str ''apps'', str ''gadget'', str ''review'', str ''iphone'',
        str ''android'', str ''software'', str ''saas'',
        str ''tecnolog'' @ [237] @ str ''a'', str ''tecnologia'', str ''ai'',
        str ''ia'']),
      (str ''family'',
       [str ''mam'' @ [225], str ''mama'', str ''hijos'', str ''maternidad'',
        str ''familia'', str ''fam'' @ [237] @ str ''lia'', str ''crianza'',
        str ''beb'' @ [233], str ''bebe'', str ''paternidad'']),
      (str ''travel'',
       [str ''viaje'', str ''viagem'', str ''travel'', str ''hotel'',
        str ''ruta'', str ''playa'', str ''aeropuerto'', str ''turismo'',
        str ''trip'']),
      (str ''fashion'',
       [str ''moda'', str ''outfit'', str ''look'', str ''streetwear'',
        str ''ropa'', str ''zapatos'', str ''fashion''])]"

record niche =
  primary_niche :: jsstring
  secondary_niches :: "jsstring list"
  confidence :: number
  evidence_keywords :: "jsstring list"

datatype error = TypeError | SqliteError

text \<open>
  One turn of the inner loop, for the word \<open>w\<close> of the niche at hand: \<open>n\<close> is
  \<open>scores[k]\<close> and \<open>ev\<close> is \<open>evidence[k]\<close>, \<open>None\<close> while it is not set.  The counts
  are small integers, exact as binary64 values, and kept as naturals.
\<close>

definition hit :: "jsstring \<Rightarrow> nat \<times> jsstring list option \<Rightarrow> jsstring \<Rightarrow> nat \<times> jsstring list option" where
  "hit text acc w =
     (case acc of (n, ev) \<Rightarrow>
        if str_includes text w
        then (n + 1,
              (let e = (case ev of None \<Rightarrow> [] | Some e \<Rightarrow> e)
               in Some (if length e < 8 then e @ [w] else e)))
        else (n, ev))"

definition scanWords :: "jsstring \<Rightarrow> jsstring list \<Rightarrow> nat \<times> jsstring list option" where
  "scanWords text words = foldl (hit text) (0, None) words"

text \<open>\<open>Object.entries(scores)\<close> and the lookup \<open>evidence[k]\<close> after the two loops.\<close>

definition scores :: "jsstring \<Rightarrow> (jsstring \<times> nat) list" where
  "scores text = map (\<lambda>(k, words). (k, fst (scanWords text words))) DICTS"

definition evidence :: "jsstring \<Rightarrow> jsstring \<Rightarrow> jsstring list option" where
  "evidence text k =
     (case map_of DICTS k of None \<Rightarrow> None | Some words \<Rightarrow> snd (scanWords text words))"

text \<open>
  \<open>sort((a,b) => b[1]-a[1])\<close>: the sort is stable, so the entries come out by
  descending count, equal counts in dictionary order.
\<close>

definition ranked :: "jsstring \<Rightarrow> (jsstring \<times> nat) list" where
  "ranked text = sort_key (\<lambda>(k, v). - int v) (scores text)"

text \<open>\<open>ranked.reduce((sum, [,v]) => sum+v, 0) || 1\<close>\<close>

definition totalHits :: "(jsstring \<times> nat) list \<Rightarrow> nat" where
  "totalHits r = (let s = foldl (\<lambda>sum (k, v). sum + v) 0 r in if s = 0 then 1 else s)"

text \<open>
  \<open>Number(x.toFixed(2))\<close>: \<open>toFixed\<close> takes the integer \<open>n\<close> for which \<open>n / 100\<close> is
  nearest to the exact magnitude of \<open>x\<close>, the larger one at a tie, and prints \<open>n / 100\<close> in
  decimal with the sign of \<open>x\<close>; from \<open>10^21\<close> on, and for a value that is not finite, it
  prints the number itself.  \<open>Number\<close> reads the decimal back.
\<close>

fun Number_toFixed2 :: "number \<Rightarrow> number" where
  "Number_toFixed2 (Fin x) =
     (if 10 ^ 21 \<le> \<bar>x\<bar> then Fin x
      else let n = \<lfloor>\<bar>x\<bar> * 100 + 1 / 2\<rfloor>
           in to_number ((if x < 0 then - 1 else 1) * of_int n / 100))"
| "Number_toFixed2 a = a"

text \<open>
  \<open>toLowerCase\<close> is the host's Unicode lower-casing, a parameter of the model.  The
  destructuring of \<open>ranked[0]\<close> and \<open>ranked[1]\<close> throws a \<open>TypeError\<close> where the entry
  does not exist.
\<close>

definition classifyNiche :: "(jsstring \<Rightarrow> jsstring) \<Rightarrow> jsstring \<Rightarrow> jsstring \<Rightarrow> error + niche" where
  "classifyNiche toLowerCase bio declared =
     (let text = toLowerCase (bio @ str '' '' @ declared)
      in case ranked text of
           (primary, pscore) # (secondary, sscore) # rest \<Rightarrow>
             (let conf = fdiv (Fin (of_nat pscore)) (Fin (of_nat (totalHits (ranked text))))
              in Inr \<lparr>primary_niche =
                        (if pscore = 0
                         then (if declared \<noteq> [] then str ''general'' else str ''general'')
                         else primary),
                      secondary_niches =
                        (if pscore = 0 then [] else filter (\<lambda>x. 0 < sscore) [secondary]),
                      confidence = Number_toFixed2 conf,
                      evidence_keywords =
                        take 8 (case evidence text primary of None \<Rightarrow> [] | Some e \<Rightarrow> e)\<rparr>)
         | _ \<Rightarrow> Inl TypeError)"

section \<open>scoring.js: the brand target mapper\<close>

record brand_entry =
  local :: "jsstring list"
  ecommerce :: "jsstring list"

definition BRAND_MAP :: "(jsstring \<times> brand_entry) list" where
  "BRAND_MAP =
     [(str ''food'',
       \<lparr>local = [str ''restaurantes locais'', str ''dark kitchens'',
                 str ''caf'' @ [233] @ str ''s'',
                 str ''eventos gastron'' @ [244] @ str ''micos'',
                 str ''apps de reservas''],
        ecommerce = [str ''utens'' @ [237] @ str ''lios de cozinha'',
                     str ''assinatura gourmet'', str ''boxes de comida'']\<rparr>),
      (str ''beauty'',
       \<lparr>local = [
                 str ''cl'' @ [237] @ str ''nicas est'' @ [233] @ str ''ticas'',
                 str ''sal'' @ [245] @ str ''es'',
                 str ''dermocl'' @ [237] @ str ''nicas''],
        ecommerce = [str ''skincare DTC'', str ''makeup'', str ''haircare'']\<rparr>),
      (str ''fitness'',
       \<lparr>local = [str ''academias'', str ''studios de treino'',
                 str ''personal training''],
        ecommerce = [str ''roupa esportiva'',
                     str ''acess'' @ [243] @ str ''rios fitness'']\<rparr>),
      (str ''tech'',
       \<lparr>local = [
                 str ''assist'' @ [234] @ str ''ncia t'' @ [233] @ str ''cnica'',
                 str ''lojas de acess'' @ [243] @ str ''rios'',
                 str ''coworkings''],
        ecommerce = [str ''gadgets'', str ''apps/SaaS'', str ''fintechs'']\<rparr>),
      (str ''family'',
       \<lparr>local = [str ''escolas/atividades'', str ''lojas infantis'',
                 str ''servi'' @ [231] @ str ''os familiares''],
        ecommerce = [str ''produtos baby'', str ''brinquedos'',
                     str ''assinaturas educativas'']\<rparr>),
      (str ''travel'',
       \<lparr>local = [str ''ag'' @ [234] @ str ''ncias locais'', str ''tours'',
                 str ''guias''],
        ecommerce = [str ''malas'',
                     str ''acess'' @ [243] @ str ''rios viagem'',
                     str ''seguros'']\<rparr>),
      (str ''fashion'',
       \<lparr>local = [str ''boutiques'', str ''barbearias/estilo'',
                 str ''fotografia''],
        ecommerce = [str ''streetwear'', str ''acess'' @ [243] @ str ''rios'',
                     str ''cal'' @ [231] @ str ''ados'']\<rparr>),
      (str ''general'',
       \<lparr>local = [str ''servi'' @ [231] @ str ''os locais'', str ''eventos'',
                 str ''restaurantes''],
        ecommerce = [str ''e-commerce geral'', str ''apps'',
                     str ''produtos de alta rotatividade'']\<rparr>)]"

text \<open>
  \<open>BRAND_MAP\<close> is an object literal, so \<open>BRAND_MAP[niche]\<close> also finds the properties
  that every object inherits from \<open>Object.prototype\<close>.  Each of them is a function or an
  object: truthy, and without a \<open>local\<close> or an \<open>ecommerce\<close> property of its own.
\<close>

definition Object_prototype_keys :: "jsstring list" where
  "Object_prototype_keys =
     [str ''constructor'', str ''__defineGetter__'', str ''__defineSetter__'',
      str ''hasOwnProperty'', str ''__lookupGetter__'', str ''__lookupSetter__'',
      str ''isPrototypeOf'', str ''propertyIsEnumerable'', str ''toString'',
      str ''valueOf'', str ''__proto__'', str ''toLocaleString'']"

text \<open>The result of \<open>buildBrandTargets\<close>; \<open>None\<close> is \<open>undefined\<close>.\<close>

record brand_targets =
  targets_local :: "jsstring list option"
  targets_ecommerce :: "jsstring list option"

definition buildBrandTargets :: "jsstring \<Rightarrow> brand_targets" where
  "buildBrandTargets niche =
     (case map_of BRAND_MAP niche of
        Some m \<Rightarrow> \<lparr>targets_local = Some (local m), targets_ecommerce = Some (ecommerce m)\<rparr>
      | None \<Rightarrow>
          if niche \<in> set Object_prototype_keys
          then \<lparr>targets_local = None, targets_ecommerce = None\<rparr>
          else (case map_of BRAND_MAP (str ''general'') of
                  Some m \<Rightarrow> \<lparr>targets_local = Some (local m), targets_ecommerce = Some (ecommerce m)\<rparr>
                | None \<Rightarrow> \<lparr>targets_local = None, targets_ecommerce = None\<rparr>))"

section \<open>The qualification pipeline\<close>

subsection \<open>The database\<close>

text \<open>
  One record per table of \<open>schema.sql\<close>, with the columns the pipeline reads or writes
  (a column it leaves out of an \<open>INSERT\<close> is \<open>NULL\<close>); a table is the list of its rows in
  insertion order.  A column that holds the output of \<open>JSON.stringify\<close> is modelled by the
  value that was serialised.
\<close>

record creator =
  cr_id :: jsstring
  cr_full_name :: jsstring
  cr_email :: jsstring
  cr_phone :: "jsstring option"
  cr_country :: jsstring
  cr_city :: "jsstring option"
  cr_declared_category :: "jsstring option"
  cr_status :: jsstring
  cr_created_at :: jsstring
  cr_updated_at :: jsstring

record profile_snapshot =
  ps_id :: jsstring
  ps_account_id :: jsstring
  ps_snapshot_date :: jsstring
  ps_created_at :: jsstring

record content_metrics =
  cm_id :: jsstring
  cm_account_id :: jsstring
  cm_day :: jsstring
  cm_posts_count :: number
  cm_reels_count :: number
  cm_likes_total :: number
  cm_comments_total :: number
  cm_created_at :: jsstring

record niche_row =
  nc_id :: jsstring
  nc_creator_id :: jsstring
  nc_primary_niche :: jsstring
  nc_secondary_niches :: "jsstring list"
  nc_confidence :: number
  nc_evidence_keywords :: "jsstring list"
  nc_model_version :: jsstring
  nc_computed_at :: jsstring

record score_row =
  cs_id :: jsstring
  cs_creator_id :: jsstring
  cs_score_total :: number
  cs_grade :: grade_letter
  cs_er_score :: number
  cs_reach_score :: number
  cs_consistency_score :: number
  cs_niche_score :: number
  cs_fraud_penalty :: number
  cs_scoring_version :: jsstring
  cs_computed_at :: jsstring

record brand_row =
  bt_id :: jsstring
  bt_creator_id :: jsstring
  bt_target_type :: jsstring
  bt_segment :: jsstring
  bt_suggested_brands :: "jsstring list option"
  bt_generated_at :: jsstring

record audit_row =
  al_id :: jsstring
  al_actor_type :: jsstring
  al_actor_id :: jsstring
  al_action :: jsstring
  al_target_type :: jsstring
  al_target_id :: jsstring
  al_metadata :: "grade_letter \<times> number \<times> jsstring"
  al_created_at :: jsstring

record db =
  creators :: "creator list"
  profile_snapshots :: "profile_snapshot list"
  content_metrics_daily :: "content_metrics list"
  niche_classification :: "niche_row list"
  creator_scores :: "score_row list"
  brand_targets_tbl :: "brand_row list"
  audit_log :: "audit_row list"

text \<open>
  What the invocation takes from outside: the host's lower-casing, the identifiers that
  \<open>nanoid()\<close> returns (the \<open>k\<close>-th call of the invocation), the readings of the clock as
  ISO strings (the \<open>k\<close>-th reading), and which of its SQL statements throw.
\<close>

datatype stmt =
    SelectCreator | InsertProfileSnapshot | InsertContentMetrics | InsertNicheClassification
  | InsertCreatorScore | InsertBrandTargetLocal | InsertBrandTargetEcommerce
  | UpdateCreatorStatus | InsertAuditLog

record env =
  toLowerCase :: "jsstring \<Rightarrow> jsstring"
  nanoid :: "nat \<Rightarrow> jsstring"
  toISOString :: "nat \<Rightarrow> jsstring"
  throws :: "stmt \<Rightarrow> bool"

text \<open>
  A statement that throws leaves the database as it is and ends the invocation with the
  error; otherwise its write is applied, at once and for good (no transaction is open),
  and the rest of the function runs.
\<close>

definition run ::
  "env \<Rightarrow> stmt \<Rightarrow> (db \<Rightarrow> db) \<Rightarrow> db \<Rightarrow> (db \<Rightarrow> db \<times> (error + unit)) \<Rightarrow> db \<times> (error + unit)" where
  "run e s write d rest = (if throws e s then (d, Inl SqliteError) else rest (write d))"

subsection \<open>\<open>runQualification\<close>\<close>

text \<open>The score block of \<open>runQualification\<close>, a function of the classifier's confidence.\<close>

record score_block =
  sb_er :: number
  sb_erScore :: number
  sb_consistencyScore :: number
  sb_nicheScore :: number
  sb_reachAvailable :: bool
  sb_reachScore :: number
  sb_fraudPenalty :: number
  sb_total :: number
  sb_g :: grade_letter

definition scoreBlock :: "number \<Rightarrow> score_block" where
  "scoreBlock niche_confidence =
     (let followers = Fin 1000;
          likes = Fin 50;
          comments = Fin 5;
          contentCount30d = Fin 8;
          er = fdiv (fadd likes comments) followers;
          erScore = computeErScore er;
          consistencyScore = computeConsistencyScore (fdiv contentCount30d (Fin 4));
          nicheScore = computeNicheScore niche_confidence;
          reachAvailable = False;
          reachScore = (case computeReachScore reachAvailable (Fin 0) of None \<Rightarrow> Fin 0 | Some r \<Rightarrow> r);
          fraudPenalty = computeFraudPenalty er followers contentCount30d;
          total = computeTotalScore erScore (Some reachScore) consistencyScore nicheScore
                    fraudPenalty reachAvailable;
          g = grade total
      in \<lparr>sb_er = er, sb_erScore = erScore, sb_consistencyScore = consistencyScore,
          sb_nicheScore = nicheScore, sb_reachAvailable = reachAvailable,
          sb_reachScore = reachScore, sb_fraudPenalty = fraudPenalty, sb_total = total,
          sb_g = g\<rparr>)"

text \<open>\<open>UPDATE creators SET status='qualified', updated_at=? WHERE id=?\<close>\<close>

definition setQualified :: "jsstring \<Rightarrow> jsstring \<Rightarrow> creator list \<Rightarrow> creator list" where
  "setQualified ts creator_id rows =
     map (\<lambda>c. if cr_id c = creator_id
               then c\<lparr>cr_status := str ''qualified'', cr_updated_at := ts\<rparr> else c) rows"

definition runQualification :: "env \<Rightarrow> jsstring \<Rightarrow> jsstring \<Rightarrow> db \<Rightarrow> db \<times> (error + unit)" where
  "runQualification e creator_id account_id d0 =
     (let ts = toISOString e 0 in
      if throws e SelectCreator then (d0, Inl SqliteError) else
      let creator = find (\<lambda>c. cr_id c = creator_id) (creators d0) in
      run e InsertProfileSnapshot
        (\<lambda>d. d\<lparr>profile_snapshots := profile_snapshots d @
           [\<lparr>ps_id = nanoid e 0, ps_account_id = account_id,
             ps_snapshot_date = take 10 (toISOString e 1), ps_created_at = ts\<rparr>]\<rparr>) d0 (\<lambda>d1.
      let day = take 10 (toISOString e 2) in
      run e InsertContentMetrics
        (\<lambda>d. d\<lparr>content_metrics_daily := content_metrics_daily d @
           [\<lparr>cm_id = nanoid e 1, cm_account_id = account_id, cm_day = day,
             cm_posts_count = Fin 0, cm_reels_count = Fin 0, cm_likes_total = Fin 0,
             cm_comments_total = Fin 0, cm_created_at = ts\<rparr>]\<rparr>) d1 (\<lambda>d2.
      let declared = (case creator of None \<Rightarrow> []
                      | Some c \<Rightarrow> (case cr_declared_category c of None \<Rightarrow> [] | Some x \<Rightarrow> x)) in
      case classifyNiche (toLowerCase e) [] declared of
        Inl err \<Rightarrow> (d2, Inl err)
      | Inr niche \<Rightarrow>
      run e InsertNicheClassification
        (\<lambda>d. d\<lparr>niche_classification := niche_classification d @
           [\<lparr>nc_id = nanoid e 2, nc_creator_id = creator_id,
             nc_primary_niche = primary_niche niche,
             nc_secondary_niches = secondary_niches niche,
             nc_confidence = confidence niche,
             nc_evidence_keywords = evidence_keywords niche,
             nc_model_version = str ''dict-v1'', nc_computed_at = ts\<rparr>]\<rparr>) d2 (\<lambda>d3.
      let sb = scoreBlock (confidence niche) in
      run e InsertCreatorScore
        (\<lambda>d. d\<lparr>creator_scores := creator_scores d @
           [\<lparr>cs_id = nanoid e 3, cs_creator_id = creator_id, cs_score_total = sb_total sb,
             cs_grade = sb_g sb, cs_er_score = sb_erScore sb,
             cs_reach_score = sb_reachScore sb,
             cs_consistency_score = sb_consistencyScore sb,
             cs_niche_score = sb_nicheScore sb, cs_fraud_penalty = sb_fraudPenalty sb,
             cs_scoring_version = str ''score-v1'', cs_computed_at = ts\<rparr>]\<rparr>) d3 (\<lambda>d4.
      let targets = buildBrandTargets (primary_niche niche) in
      run e InsertBrandTargetLocal
        (\<lambda>d. d\<lparr>brand_targets_tbl := brand_targets_tbl d @
           [\<lparr>bt_id = nanoid e 4, bt_creator_id = creator_id, bt_target_type = str ''local'',
             bt_segment = primary_niche niche,
             bt_suggested_brands = targets_local targets, bt_generated_at = ts\<rparr>]\<rparr>) d4 (\<lambda>d5.
      run e InsertBrandTargetEcommerce
        (\<lambda>d. d\<lparr>brand_targets_tbl := brand_targets_tbl d @
           [\<lparr>bt_id = nanoid e 5, bt_creator_id = creator_id,
             bt_target_type = str ''ecommerce'', bt_segment = primary_niche niche,
             bt_suggested_brands = targets_ecommerce targets, bt_generated_at = ts\<rparr>]\<rparr>) d5 (\<lambda>d6.
      run e UpdateCreatorStatus
        (\<lambda>d. d\<lparr>creators := setQualified ts creator_id (creators d)\<rparr>) d6 (\<lambda>d7.
      run e InsertAuditLog
        (\<lambda>d. d\<lparr>audit_log := audit_log d @
           [\<lparr>al_id = nanoid e 6, al_actor_type = str ''system'',
             al_actor_id = str ''pipeline'', al_action = str ''QUALIFIED'',
             al_target_type = str ''creator'', al_target_id = creator_id,
             al_metadata = (sb_g sb, sb_total sb, primary_niche niche),
             al_created_at = toISOString e 3\<rparr>]\<rparr>) d7 (\<lambda>d8.
      (d8, Inr ()))))))))))"

subsection \<open>The order of the statements\<close>




subsection \<open>What the overview shows as current\<close>




subsection \<open>A sample run\<close>

text \<open>
  A database with one connected creator who declared the category \<open>sushi\<close>, and an
  environment whose lower-casing leaves the (lower-case) text as it is; \<open>failing\<close> says
  which statements throw.
\<close>

definition sample_db :: db where
  "sample_db =
     \<lparr>creators =
        [\<lparr>cr_id = str ''c1'', cr_full_name = str ''Ana Lima'', cr_email = str ''ana@example.com'',
          cr_phone = None, cr_country = str ''PT'', cr_city = None,
          cr_declared_category = Some (str ''sushi''), cr_status = str ''connected'',
          cr_created_at = str ''2026-01-31T10:00:00.000Z'',
          cr_updated_at = str ''2026-01-31T10:05:00.000Z''\<rparr>],
      profile_snapshots = [], content_metrics_daily = [], niche_classification = [],
      creator_scores = [], brand_targets_tbl = [], audit_log = []\<rparr>"

definition sample_env :: "(stmt \<Rightarrow> bool) \<Rightarrow> env" where
  "sample_env failing =
     \<lparr>toLowerCase = (\<lambda>s. s),
      nanoid = (\<lambda>k. str ''id'' @ [48 + k]),
      toISOString = (\<lambda>k. str ''2026-01-31T10:05:00.00'' @ [48 + k] @ str ''Z''),
      throws = failing\<rparr>"

definition no_failure :: "stmt \<Rightarrow> bool" where
  "no_failure s = False"


definition audit_insert_fails :: "stmt \<Rightarrow> bool" where
  "audit_insert_fails s = (s = InsertAuditLog)"

section \<open>Properties of the number model\<close>

subsection \<open>The binary exponent\<close>

lemma ilog2_bounds:
  assumes "0 < x"
  shows "2 powi (ilog2 x) \<le> x \<and> x < 2 powi (ilog2 x + 1)"
proof (cases "1 \<le> x")
  case True
  define n where "n = \<lfloor>x\<rfloor>"
  have n1: "1 \<le> n" using True by (simp add: n_def le_floor_iff)
  then have npos: "0 < n" by simp
  have e: "ilog2 x = bitlen n - 1" using True by (simp add: ilog2_def n_def)
  have b1: "1 \<le> bitlen n" using npos by (simp add: bitlen_alt_def)
  from bitlen_bounds[OF npos] have lo: "(2::int) ^ nat (bitlen n - 1) \<le> n" and hi: "n < 2 ^ nat (bitlen n)"
    by auto
  have "(2::rat) powi (bitlen n - 1) = 2 ^ nat (bitlen n - 1)"
    using b1 by (simp add: power_int_def)
  also have "\<dots> = of_int (2 ^ nat (bitlen n - 1))" by simp
  also have "\<dots> \<le> of_int n" using lo by (simp only: of_int_le_iff)
  also have "\<dots> \<le> x" by (simp add: n_def)
  finally have L: "2 powi (ilog2 x) \<le> x" by (simp add: e)
  have "n + 1 \<le> 2 ^ nat (bitlen n)" using hi by simp
  then have "(of_int (n + 1) :: rat) \<le> of_int (2 ^ nat (bitlen n))" by (simp only: of_int_le_iff)
  moreover have "x < of_int (n + 1)" using floor_correct[of x] by (simp add: n_def)
  ultimately have "x < of_int (2 ^ nat (bitlen n))" by linarith
  also have "\<dots> = 2 powi (bitlen n)" using b1 by (simp add: power_int_def)
  finally have "x < 2 powi (ilog2 x + 1)" by (simp add: e)
  with L show ?thesis by blast
next
  case False
  then have x1: "x < 1" by simp
  define m where "m = \<lceil>1 / x\<rceil>"
  have inv1: "1 < 1 / x" using assms x1 by (simp add: field_simps)
  have m2: "2 \<le> m" using inv1 unfolding m_def by (simp add: le_ceiling_iff) 
  define k where "k = bitlen (m - 1)"
  have e: "ilog2 x = - k" using False by (simp add: ilog2_def m_def k_def)
  have mpos: "0 < m - 1" using m2 by simp
  have k1: "1 \<le> k" using mpos by (simp add: k_def bitlen_alt_def)
  from bitlen_bounds[OF mpos] have lo: "(2::int) ^ nat (k - 1) \<le> m - 1" and hi: "m - 1 < 2 ^ nat k"
    by (auto simp: k_def)
  have "of_int (m - 1) < 1 / x" unfolding m_def by (metis less_ceiling_iff diff_less_eq less_add_one)
  with lo have "(of_int (2 ^ nat (k - 1)) :: rat) < 1 / x"
    by (metis of_int_le_iff order_le_less_trans)
  then have A: "(2::rat) ^ nat (k - 1) < 1 / x" by simp
  have "m \<le> 2 ^ nat k" using hi by simp
  then have "(of_int m :: rat) \<le> of_int (2 ^ nat k)" by (simp only: of_int_le_iff)
  then have "(of_int m :: rat) \<le> 2 ^ nat k" by simp
  moreover have "1 / x \<le> of_int m" unfolding m_def by simp
  ultimately have B: "1 / x \<le> (2::rat) ^ nat k" by linarith
  have "2 powi (- k) = 1 / (2::rat) ^ nat k" using k1 by (simp add: power_int_def field_simps)
  also have "\<dots> \<le> x" using B assms by (simp add: field_simps)
  finally have L: "2 powi (ilog2 x) \<le> x" by (simp add: e)
  have "x < 1 / (2::rat) ^ nat (k - 1)" using A assms by (simp add: field_simps)
  also have "\<dots> = 2 powi (- k + 1)" using k1 by (simp add: power_int_def field_simps nat_diff_distrib)
  finally have "x < 2 powi (ilog2 x + 1)" by (simp add: e)
  with L show ?thesis by blast
qed

lemma ilog2_eqI:
  assumes "0 < x" "2 powi e \<le> x" "x < 2 powi (e + 1)"
  shows "ilog2 x = e"
proof -
  from ilog2_bounds[OF assms(1)] have a: "2 powi (ilog2 x) \<le> x" and b: "x < 2 powi (ilog2 x + 1)"
    by auto
  have "(2::rat) powi e < 2 powi (ilog2 x + 1)" using assms(2) b by linarith
  then have 1: "e < ilog2 x + 1"
    using power_int_increasing[of "ilog2 x + 1" e "2::rat"] by (cases "e < ilog2 x + 1") auto
  have "(2::rat) powi (ilog2 x) < 2 powi (e + 1)" using a assms(3) by linarith
  then have 2: "ilog2 x < e + 1"
    using power_int_increasing[of "e + 1" "ilog2 x" "2::rat"] by (cases "ilog2 x < e + 1") auto
  from 1 2 show ?thesis by simp
qed

subsection \<open>Rounding\<close>

lemma round_even_near:
  assumes "\<bar>y - of_int n\<bar> < 1 / 2"
  shows "round_even y = n"
proof -
  have "\<lfloor>y\<rfloor> = n \<and> y - of_int n < 1 / 2 \<or> \<lfloor>y\<rfloor> = n - 1 \<and> 1 / 2 < y - of_int (n - 1)"
  proof (cases "of_int n \<le> y")
    case True
    then have "\<lfloor>y\<rfloor> = n" using assms by (intro floor_unique) auto
    then show ?thesis using assms by auto
  next
    case False
    then have "\<lfloor>y\<rfloor> = n - 1" using assms by (intro floor_unique) auto
    then show ?thesis using assms False by auto
  qed
  then show ?thesis
    by (auto simp: round_even_def Let_def)
qed

lemma round_even_error: "\<bar>of_int (round_even y) - y\<bar> \<le> 1 / 2"
proof -
  have "of_int \<lfloor>y\<rfloor> \<le> y" "y < of_int \<lfloor>y\<rfloor> + 1"
    using floor_correct[of y] by auto
  then show ?thesis
    by (auto simp: round_even_def Let_def abs_le_iff)
qed

lemma fl_eqI:
  assumes x: "x \<noteq> 0"
    and lo: "2 powi e \<le> \<bar>x\<bar>" and hi: "\<bar>x\<bar> < 2 powi (e + 1)"
    and e: "- 1022 \<le> e"
    and n: "\<bar>x * 2 powi (52 - e) - of_int n\<bar> < 1 / 2"
  shows "fl x = of_int n * 2 powi (e - 52)"
proof -
  have "ilog2 \<bar>x\<bar> = e" using x lo hi by (intro ilog2_eqI) auto
  then have m: "max (ilog2 \<bar>x\<bar>) (- 1022) = e" using e by simp
  have "x / 2 powi (e - 52) = x * 2 powi (52 - e)"
    by (simp add: power_int_diff field_simps)
  then have "round_even (x / 2 powi (e - 52)) = n"
    using n by (simp add: round_even_near)
  then show ?thesis using x m by (simp add: fl_def Let_def)
qed

lemma to_number_eqI:
  assumes x: "x \<noteq> 0"
    and lo: "2 powi e \<le> \<bar>x\<bar>" and hi: "\<bar>x\<bar> < 2 powi (e + 1)"
    and e: "- 1022 \<le> e" "e \<le> 1022"
    and n: "\<bar>x * 2 powi (52 - e) - of_int n\<bar> < 1 / 2"
  shows "to_number x = Fin (of_int n * 2 powi (e - 52))"
proof -
  have f: "fl x = of_int n * 2 powi (e - 52)"
    using x lo hi e(1) n by (rule fl_eqI)
  have p: "(0::rat) < 2 powi (52 - e)" by simp
  have "\<bar>x * 2 powi (52 - e)\<bar> < 2 powi (e + 1) * 2 powi (52 - e)"
    using hi p by (simp add: abs_mult)
  also have "\<dots> = 2 powi 53" by (simp flip: power_int_add)
  finally have "\<bar>x * 2 powi (52 - e)\<bar> < 2 ^ 53" by simp
  with n have "\<bar>(of_int n :: rat)\<bar> < 2 ^ 53 + 1 / 2" by linarith
  then have "\<bar>(of_int n :: rat)\<bar> < of_int (2 ^ 53 + 1)" by simp
  then have "\<bar>n\<bar> < 2 ^ 53 + 1" by (metis of_int_abs of_int_less_iff)
  then have "\<bar>n\<bar> \<le> 2 ^ 53" by simp
  then have "(of_int \<bar>n\<bar> :: rat) \<le> of_int (2 ^ 53)" by (simp only: of_int_le_iff)
  then have "\<bar>(of_int n :: rat)\<bar> \<le> 2 powi 53" by simp
  then have "\<bar>of_int n * 2 powi (e - 52)\<bar> \<le> 2 powi 53 * (2::rat) powi (e - 52)"
    by (simp add: abs_mult mult_right_mono)
  also have "\<dots> = 2 powi (e + 1)" using power_int_add[of "2::rat" 53 "e - 52"] by (simp add: add.commute)
  also have "\<dots> \<le> 2 powi 1023" using e(2) by (intro power_int_increasing) auto
  also have "\<dots> < 2 powi 1024" by (intro power_int_strict_increasing) auto
  finally have "\<bar>fl x\<bar> < 2 ^ 1024" by (simp add: f)
  then show ?thesis by (simp add: to_number_def Let_def f abs_less_iff not_le)
qed

lemma fl_error:
  assumes "\<bar>x\<bar> < 2 powi k" "- 1021 \<le> k"
  shows "\<bar>fl x - x\<bar> \<le> 2 powi (k - 54)"
proof (cases "x = 0")
  case True
  then show ?thesis by (simp add: fl_def)
next
  case False
  define e where "e = max (ilog2 \<bar>x\<bar>) (- 1022)"
  define u :: rat where "u = 2 powi (e - 52)"
  have upos: "0 < u" by (simp add: u_def)
  have "2 powi (ilog2 \<bar>x\<bar>) \<le> \<bar>x\<bar>" using ilog2_bounds[of "\<bar>x\<bar>"] False by simp
  with assms(1) have "(2::rat) powi (ilog2 \<bar>x\<bar>) < 2 powi k" by linarith
  then have "ilog2 \<bar>x\<bar> < k"
    using power_int_increasing[of k "ilog2 \<bar>x\<bar>" "2::rat"] by (cases "ilog2 \<bar>x\<bar> < k") auto
  then have "e \<le> k - 1" using assms(2) by (simp add: e_def)
  then have ule: "u \<le> 2 powi (k - 53)" unfolding u_def by (intro power_int_increasing) auto
  have "fl x - x = (of_int (round_even (x / u)) - x / u) * u"
    using False upos by (simp add: fl_def Let_def e_def u_def field_simps)
  then have "\<bar>fl x - x\<bar> = \<bar>of_int (round_even (x / u)) - x / u\<bar> * u"
    using upos by (simp add: abs_mult)
  also have "\<dots> \<le> 1 / 2 * u" using round_even_error[of "x / u"] upos by (intro mult_right_mono) auto
  also have "\<dots> \<le> 1 / 2 * 2 powi (k - 53)" using ule by simp
  also have "\<dots> = 2 powi (k - 54)" 
    using power_int_add[of "2::rat" "k - 54" 1] by simp
  finally show ?thesis .
qed

subsection \<open>Values that need no rounding\<close>

lemma round_even_of_int: "round_even (of_int j) = j"
  using round_even_near[of "of_int j" j] by simp

lemma fl_exact:
  assumes x: "x = of_int m * 2 powi k" and m: "\<bar>m\<bar> < 2 ^ 53" and k: "- 1074 \<le> k"
  shows "fl x = x"
proof (cases "x = 0")
  case True
  then show ?thesis by (simp add: fl_def)
next
  case False
  define e where "e = max (ilog2 \<bar>x\<bar>) (- 1022)"
  have "(of_int \<bar>m\<bar> :: rat) < of_int (2 ^ 53)" using m by (simp only: of_int_less_iff)
  then have m': "\<bar>(of_int m :: rat)\<bar> < 2 powi 53" by simp
  have "2 powi (ilog2 \<bar>x\<bar>) \<le> \<bar>x\<bar>" using ilog2_bounds[of "\<bar>x\<bar>"] False by simp
  also have "\<bar>x\<bar> = \<bar>of_int m\<bar> * 2 powi k" by (simp add: x abs_mult)
  also have "\<dots> < 2 powi 53 * 2 powi k" using m' by (intro mult_strict_right_mono) auto
  also have "\<dots> = 2 powi (53 + k)" using power_int_add[of "2::rat" 53 k] by simp
  finally have "ilog2 \<bar>x\<bar> < 53 + k"
    using power_int_increasing[of "53 + k" "ilog2 \<bar>x\<bar>" "2::rat"]
    by (cases "ilog2 \<bar>x\<bar> < 53 + k") auto
  then have d: "0 \<le> k - (e - 52)" using k by (simp add: e_def)
  define j where "j = m * 2 ^ nat (k - (e - 52))"
  have "(2::rat) powi k = 2 powi (k - (e - 52)) * 2 powi (e - 52)"
    using power_int_add[of "2::rat" "k - (e - 52)" "e - 52"] by simp
  also have "(2::rat) powi (k - (e - 52)) = 2 ^ nat (k - (e - 52))"
    using d by (simp add: power_int_def)
  finally have xj: "x = of_int j * 2 powi (e - 52)" by (simp add: x j_def)
  then have "x / 2 powi (e - 52) = of_int j" by simp
  then have "round_even (x / 2 powi (e - 52)) = j" by (simp only: round_even_of_int)
  then have "fl x = of_int j * 2 powi (e - 52)"
    using False by (simp add: fl_def Let_def e_def)
  with xj show ?thesis by simp
qed

lemma to_number_exact:
  assumes "x = of_int m * 2 powi k" "\<bar>m\<bar> < 2 ^ 53" "- 1074 \<le> k" "\<bar>x\<bar> < 2 ^ 1024"
  shows "to_number x = Fin x"
  using fl_exact[OF assms(1-3)] assms(4) by (simp add: to_number_def Let_def abs_less_iff not_le)

lemma to_number_of_int:
  assumes "\<bar>m\<bar> < 2 ^ 53"
  shows "to_number (of_int m) = Fin (of_int m)"
proof -
  have "(of_int \<bar>m\<bar> :: rat) < of_int (2 ^ 53)" using assms by (simp only: of_int_less_iff)
  then have "\<bar>(of_int m :: rat)\<bar> < 2 ^ 53" by simp
  also have "\<dots> < 2 ^ 1024" by simp
  finally show ?thesis using to_number_exact[of "of_int m" m 0] assms by simp
qed

lemma to_number_0: "to_number 0 = Fin 0"
  by (simp add: to_number_def fl_def)

lemma to_number_10: "to_number 10 = Fin 10"
  using to_number_of_int[of 10] by simp
lemma to_number_20: "to_number 20 = Fin 20"
  using to_number_of_int[of 20] by simp
lemma to_number_30: "to_number 30 = Fin 30"
  using to_number_of_int[of 30] by simp

subsection \<open>The literals of the threshold ladders\<close>

text \<open>
  Each literal is the multiple \<open>n * 2^(e - 52)\<close> nearest to the decimal, with
  \<open>2^52 \<le> n < 2^53\<close>.
\<close>

lemma lit_006: "lit (6 / 100) = Fin (1080863910568919 / 2 ^ 54)"
  unfolding lit_def using to_number_eqI[of "6 / 100" "- 5" 8646911284551352] by simp
lemma lit_003: "lit (3 / 100) = Fin (1080863910568919 / 2 ^ 55)"
  unfolding lit_def using to_number_eqI[of "3 / 100" "- 6" 8646911284551352] by simp
lemma lit_0015: "lit (15 / 1000) = Fin (1080863910568919 / 2 ^ 56)"
  unfolding lit_def using to_number_eqI[of "15 / 1000" "- 7" 8646911284551352] by simp
lemma lit_0008: "lit (8 / 1000) = Fin (1152921504606847 / 2 ^ 57)"
  unfolding lit_def using to_number_eqI[of "8 / 1000" "- 7" 4611686018427388] by simp
lemma lit_012: "lit (12 / 100) = Fin (1080863910568919 / 2 ^ 53)"
  unfolding lit_def using to_number_eqI[of "12 / 100" "- 4" 8646911284551352] by simp

section \<open>The score calculator\<close>

subsection \<open>Engagement-rate score\<close>

lemma computeErScore_Fin:
  "computeErScore (Fin x) =
     (if 1080863910568919 / 2 ^ 54 \<le> x then Fin 100
      else if 1080863910568919 / 2 ^ 55 \<le> x then Fin 70
      else if 1080863910568919 / 2 ^ 56 \<le> x then Fin 45
      else Fin 20)"
  unfolding computeErScore_def lit_006 lit_003 lit_0015 ge_def by simp

lemma computeErScore_special:
  "computeErScore NaN = Fin 20" "computeErScore NegInf = Fin 20" "computeErScore PosInf = Fin 100"
  unfolding computeErScore_def lit_006 lit_003 lit_0015 ge_def by simp_all

text \<open>
  Claim C7.  \<open>computeErScore\<close> is monotonically non-decreasing: whenever \<open>er1 <= er2\<close>
  holds for two numbers (so neither is \<open>NaN\<close>), the score of \<open>er1\<close> is at most the
  score of \<open>er2\<close>; and for every number \<open>er\<close>, \<open>NaN\<close> and the infinities included,
  the score is one of 20, 45, 70, 100.
\<close>

theorem computeErScore_monotone:
  assumes "le er1 er2"
  shows "le (computeErScore er1) (computeErScore er2)
         \<and> computeErScore er \<in> {Fin 20, Fin 45, Fin 70, Fin 100}"
proof
  show "le (computeErScore er1) (computeErScore er2)"
    using assms
    by (cases er1; cases er2) (auto simp: computeErScore_Fin computeErScore_special)
  show "computeErScore er \<in> {Fin 20, Fin 45, Fin 70, Fin 100}"
    by (cases er) (auto simp: computeErScore_Fin computeErScore_special)
qed

text \<open>The rates 0.01 and 0.05 are ordered and score 20 and 70.\<close>

theorem computeErScore_monotone_witness:
  "le (Fin (1 / 100)) (Fin (1 / 20))
   \<and> computeErScore (Fin (1 / 100)) = Fin 20 \<and> computeErScore (Fin (1 / 20)) = Fin 70
   \<and> le (computeErScore (Fin (1 / 100))) (computeErScore (Fin (1 / 20)))
   \<and> computeErScore (Fin (1 / 20)) \<in> {Fin 20, Fin 45, Fin 70, Fin 100}"
  using computeErScore_monotone[of "Fin (1 / 100)" "Fin (1 / 20)" "Fin (1 / 20)"]
  by (simp add: computeErScore_Fin)

subsection \<open>Grade\<close>

text \<open>
  Claim C6.  \<open>grade\<close> maps a total \<open>t\<close> to \<open>A\<close> if \<open>t >= 80\<close>, to \<open>B\<close> if
  \<open>60 <= t < 80\<close>, and to \<open>C\<close> otherwise (which is where \<open>NaN\<close> lands); at the
  boundaries, \<open>grade(79) = B\<close>, \<open>grade(80) = A\<close>, \<open>grade(59) = C\<close>, \<open>grade(60) = B\<close>.
\<close>

theorem grade_boundaries:
  "grade (Fin t) = (if 80 \<le> t then A else if 60 \<le> t \<and> t < 80 then B else C)
   \<and> grade PosInf = A \<and> grade NegInf = C \<and> grade NaN = C
   \<and> grade (Fin 79) = B \<and> grade (Fin 80) = A \<and> grade (Fin 59) = C \<and> grade (Fin 60) = B"
  by (simp add: grade_def ge_def)

subsection \<open>Fraud penalty\<close>

lemma clamp_Fin:
  "clamp (Fin x) (Fin a) (Fin b) = Fin (if x \<le> b then (if a \<le> x then x else a) else (if a \<le> b then b else a))"
  by (simp add: clamp_def)

text \<open>
  Claim C5.  For every input, \<open>computeFraudPenalty\<close> is the sum of one increment of 10
  for each rule whose condition holds (followers above 20000 with rate below 0.008;
  followers above 50000 with fewer than 4 contents in 30 days; rate above 0.12 with fewer
  than 6 contents), and lies between 0 and 30.
\<close>

theorem computeFraudPenalty_sum:
  "computeFraudPenalty er followers contentCount30d =
     Fin ((if gt followers (Fin 20000) \<and> lt er (lit (8 / 1000)) then 10 else 0)
        + (if gt followers (Fin 50000) \<and> lt contentCount30d (Fin 4) then 10 else 0)
        + (if gt er (lit (12 / 100)) \<and> lt contentCount30d (Fin 6) then 10 else 0))
   \<and> le (Fin 0) (computeFraudPenalty er followers contentCount30d)
   \<and> le (computeFraudPenalty er followers contentCount30d) (Fin 30)"
  by (simp add: computeFraudPenalty_def Let_def to_number_10 to_number_20 to_number_30 clamp_Fin)

lemma rules_1_3_exclusive: "\<not> (lt er (lit (8 / 1000)) \<and> gt er (lit (12 / 100)))"
  unfolding lit_0008 lit_012 gt_def by (cases er) auto

text \<open>
  Claim C9.  The penalty is at most 20 for every input: the first rule needs a rate below
  0.008 and the third a rate above 0.12, which no number satisfies together, so the three
  increments never all apply.
\<close>

theorem computeFraudPenalty_at_most_20:
  "le (computeFraudPenalty er followers contentCount30d) (Fin 20)
   \<and> \<not> (lt er (lit (8 / 1000)) \<and> gt er (lit (12 / 100)))"
  using rules_1_3_exclusive[of er]
  by (auto simp add: computeFraudPenalty_def Let_def to_number_10 to_number_20 to_number_30 clamp_Fin)

section \<open>The brand target mapper\<close>

text \<open>
  Claim C8.  The mapper is meant to send every tag without an entry of its own to the
  \<open>general\<close> entry.  The tag \<open>constructor\<close> has no entry in \<open>BRAND_MAP\<close>, yet
  \<open>buildBrandTargets\<close> does not fall back for it: the lookup finds the property inherited
  from \<open>Object.prototype\<close>, and both lists of the result are \<open>undefined\<close>.
\<close>

theorem buildBrandTargets_constructor:
  "map_of BRAND_MAP (str ''constructor'') = None
   \<and> buildBrandTargets (str ''constructor'') = \<lparr>targets_local = None, targets_ecommerce = None\<rparr>
   \<and> buildBrandTargets (str ''constructor'') \<noteq> buildBrandTargets (str ''general'')"
  by (simp add: buildBrandTargets_def BRAND_MAP_def Object_prototype_keys_def str_def)

text \<open>
  The tags the classifier can return do resolve to two non-empty lists, and a tag that is
  neither mapped nor the name of an inherited property does fall back.
\<close>

lemma buildBrandTargets_producible:
  "niche \<in> set (map fst DICTS) \<union> {str ''general''} \<Longrightarrow>
   (\<exists>l c. buildBrandTargets niche = \<lparr>targets_local = Some l, targets_ecommerce = Some c\<rparr>
          \<and> l \<noteq> [] \<and> c \<noteq> [])"
  by (auto simp add: buildBrandTargets_def BRAND_MAP_def DICTS_def str_def)

lemma buildBrandTargets_fallback:
  "niche \<notin> set (map fst BRAND_MAP) \<Longrightarrow> niche \<notin> set Object_prototype_keys \<Longrightarrow>
   buildBrandTargets niche = buildBrandTargets (str ''general'')"
  by (simp add: buildBrandTargets_def map_of_eq_None_iff[THEN iffD2] split: option.splits)

section \<open>The niche classifier\<close>

lemma foldl_hit_none:
  "\<forall>w \<in> set ws. \<not> str_includes text w \<Longrightarrow> foldl (hit text) acc ws = acc"
  by (induction ws arbitrary: acc) (auto simp: hit_def split: prod.splits)

lemma scanWords_none:
  "\<forall>w \<in> set ws. \<not> str_includes text w \<Longrightarrow> scanWords text ws = (0, None)"
  by (simp add: scanWords_def foldl_hit_none)

lemma scores_none:
  assumes "\<forall>(k, words) \<in> set DICTS. \<forall>w \<in> set words. \<not> str_includes text w"
  shows "scores text = map (\<lambda>(k, words). (k, 0)) DICTS"
  unfolding scores_def
  by (rule map_cong[OF refl]) (use assms in \<open>auto simp: scanWords_none\<close>)

lemma evidence_none:
  assumes "\<forall>(k, words) \<in> set DICTS. \<forall>w \<in> set words. \<not> str_includes text w"
  shows "evidence text k = None"
proof (cases "map_of DICTS k")
  case None
  then show ?thesis by (simp add: evidence_def)
next
  case (Some words)
  then have "(k, words) \<in> set DICTS" by (rule map_of_SomeD)
  with assms have "\<forall>w \<in> set words. \<not> str_includes text w" by auto
  then show ?thesis by (simp add: evidence_def Some scanWords_none)
qed

lemma ranked_none:
  assumes "\<forall>(k, words) \<in> set DICTS. \<forall>w \<in> set words. \<not> str_includes text w"
  shows "ranked text =
     [(str ''food'', 0), (str ''beauty'', 0), (str ''fitness'', 0), (str ''tech'', 0),
      (str ''family'', 0), (str ''travel'', 0), (str ''fashion'', 0)]"
  unfolding ranked_def scores_none[OF assms] by (simp add: DICTS_def)

lemma floor_half: "\<lfloor>(1::rat) / 2\<rfloor> = 0"
  by (rule floor_unique) simp_all

lemma Number_toFixed2_0: "Number_toFixed2 (Fin 0) = Fin 0"
  by (simp add: to_number_0 floor_half)

lemma classifyNiche_no_hits:
  assumes "\<forall>(k, words) \<in> set DICTS. \<forall>w \<in> set words.
             \<not> str_includes (lower (bio @ str '' '' @ declared)) w"
  shows "classifyNiche lower bio declared =
           Inr \<lparr>primary_niche = str ''general'', secondary_niches = [],
                confidence = Fin 0, evidence_keywords = []\<rparr>
         \<and> totalHits (ranked (lower (bio @ str '' '' @ declared))) = 1"
proof -
  define tx where "tx = lower (bio @ str '' '' @ declared)"
  have a: "\<forall>(k, words) \<in> set DICTS. \<forall>w \<in> set words. \<not> str_includes tx w"
    using assms by (simp add: tx_def)
  have r: "ranked tx =
     [(str ''food'', 0), (str ''beauty'', 0), (str ''fitness'', 0), (str ''tech'', 0),
      (str ''family'', 0), (str ''travel'', 0), (str ''fashion'', 0)]"
    by (rule ranked_none[OF a])
  have t: "totalHits (ranked tx) = 1" by (simp add: r totalHits_def)
  note t' = t[unfolded r]
  have "classifyNiche lower bio declared =
           Inr \<lparr>primary_niche = str ''general'', secondary_niches = [],
                confidence = Fin 0, evidence_keywords = []\<rparr>"
    unfolding classifyNiche_def tx_def[symmetric] Let_def r
    by (simp add: t' Number_toFixed2_0 to_number_0 evidence_none[OF a] del: Number_toFixed2.simps)
  with t show ?thesis by (simp add: tx_def)
qed

text \<open>
  Claim C3.  If no keyword of any niche occurs in the lower-cased text, then, whatever the
  declared category is, \<open>classifyNiche\<close> returns the primary niche \<open>general\<close>, no
  secondary niche, confidence 0 and no evidence; the denominator of the confidence is 1,
  not the zero sum of the hits.
\<close>

theorem classifyNiche_no_keyword:
  assumes "\<forall>(k, words) \<in> set DICTS. \<forall>w \<in> set words.
             \<not> str_includes (lower (bio @ str '' '' @ declared)) w"
  shows "classifyNiche lower bio declared =
           Inr \<lparr>primary_niche = str ''general'', secondary_niches = [],
                confidence = Fin 0, evidence_keywords = []\<rparr>
         \<and> totalHits (ranked (lower (bio @ str '' '' @ declared))) = 1"
  using assms by (rule classifyNiche_no_hits)

text \<open>Empty bio and empty declared category: the text is a single space.\<close>

theorem classifyNiche_no_keyword_witness:
  "list_all (\<lambda>(k, words). list_all (\<lambda>w. \<not> str_includes ([] @ str '' '' @ []) w) words) DICTS
   \<and> classifyNiche (\<lambda>s. s) [] [] =
           Inr \<lparr>primary_niche = str ''general'', secondary_niches = [],
                confidence = Fin 0, evidence_keywords = []\<rparr>
   \<and> totalHits (ranked ((\<lambda>s. s) ([] @ str '' '' @ []))) = 1"
  using classifyNiche_no_keyword[of "\<lambda>s. s" "[]" "[]"] by (simp add: DICTS_def str_def)

section \<open>The score block of the pipeline\<close>

subsection \<open>Its literals, products and sums\<close>

lemma lit_040: "lit (40 / 100) = Fin (3602879701896397 / 2 ^ 53)"
  unfolding lit_def using to_number_eqI[of "40 / 100" "- 2" 7205759403792794] by simp
lemma lit_025: "lit (25 / 100) = Fin (1 / 4)"
  unfolding lit_def using to_number_exact[of "25 / 100" 1 "- 2"] by simp
lemma lit_020: "lit (20 / 100) = Fin (3602879701896397 / 2 ^ 54)"
  unfolding lit_def using to_number_eqI[of "20 / 100" "- 3" 7205759403792794] by simp
lemma lit_015: "lit (15 / 100) = Fin (5404319552844595 / 2 ^ 55)"
  unfolding lit_def using to_number_eqI[of "15 / 100" "- 3" 5404319552844595] by simp
lemma lit_075: "lit (75 / 100) = Fin (3 / 4)"
  unfolding lit_def using to_number_exact[of "75 / 100" 3 "- 2"] by simp
lemma lit_06: "lit (6 / 10) = Fin (5404319552844595 / 2 ^ 53)"
  unfolding lit_def using to_number_eqI[of "6 / 10" "- 1" 5404319552844595] by simp
lemma lit_045: "lit (45 / 100) = Fin (8106479329266893 / 2 ^ 54)"
  unfolding lit_def using to_number_eqI[of "45 / 100" "- 2" 8106479329266893] by simp
lemma lit_0055: "lit (55 / 1000) = Fin (7926335344172073 / 2 ^ 57)"
  unfolding lit_def using to_number_eqI[of "55 / 1000" "- 5" 7926335344172073] by simp

lemma to_number_55: "to_number 55 = Fin 55"
  using to_number_of_int[of 55] by simp

lemma to_number_2: "to_number 2 = Fin 2"
  using to_number_of_int[of 2] by simp

lemma pipeline_er: "fdiv (fadd (Fin 50) (Fin 5)) (Fin 1000) = Fin (7926335344172073 / 2 ^ 57)"
  using to_number_eqI[of "55 / 1000" "- 5" 7926335344172073] by (simp add: to_number_55)

lemma pipeline_per_week: "fdiv (Fin 8) (Fin 4) = Fin 2"
  by (simp add: to_number_2)

lemma mul_040_70: "fmul (lit (40 / 100)) (Fin 70) = Fin 28"
  unfolding lit_040
  using to_number_eqI[of "3602879701896397 / 2 ^ 53 * 70" 4 7881299347898368] by simp
lemma mul_025_70: "fmul (lit (25 / 100)) (Fin 70) = Fin (35 / 2)"
  unfolding lit_025 using to_number_exact[of "35 / 2" 35 "- 1"] by simp

lemma mul_020_35: "fmul (lit (20 / 100)) (Fin 35) = Fin 7"
  unfolding lit_020
  using to_number_eqI[of "3602879701896397 / 2 ^ 54 * 35" 2 7881299347898368] by simp
lemma mul_020_55: "fmul (lit (20 / 100)) (Fin 55) = Fin 11"
  unfolding lit_020
  using to_number_eqI[of "3602879701896397 / 2 ^ 54 * 55" 3 6192449487634432] by simp
lemma mul_020_75: "fmul (lit (20 / 100)) (Fin 75) = Fin 15"
  unfolding lit_020
  using to_number_eqI[of "3602879701896397 / 2 ^ 54 * 75" 3 8444249301319680] by simp
lemma mul_020_100: "fmul (lit (20 / 100)) (Fin 100) = Fin 20"
  unfolding lit_020
  using to_number_eqI[of "3602879701896397 / 2 ^ 54 * 100" 4 5629499534213120] by simp
lemma mul_015_0: "fmul (lit (15 / 100)) (Fin 0) = Fin 0"
  unfolding lit_015 by (simp add: to_number_0)

lemma add_28_half: "fadd (Fin 28) (Fin (35 / 2)) = Fin (91 / 2)"
  using to_number_exact[of "91 / 2" 91 "- 1"] by simp

lemma add_half_7: "fadd (Fin (91 / 2)) (Fin 7) = Fin (105 / 2)"
  using to_number_exact[of "105 / 2" 105 "- 1"] by simp
lemma add_half_11: "fadd (Fin (91 / 2)) (Fin 11) = Fin (113 / 2)"
  using to_number_exact[of "113 / 2" 113 "- 1"] by simp
lemma add_half_15: "fadd (Fin (91 / 2)) (Fin 15) = Fin (121 / 2)"
  using to_number_exact[of "121 / 2" 121 "- 1"] by simp
lemma add_half_20: "fadd (Fin (91 / 2)) (Fin 20) = Fin (131 / 2)"
  using to_number_exact[of "131 / 2" 131 "- 1"] by simp

lemma sub_0:
  "fsub (Fin (105 / 2)) (Fin 0) = Fin (105 / 2)" "fsub (Fin (113 / 2)) (Fin 0) = Fin (113 / 2)"
  "fsub (Fin (121 / 2)) (Fin 0) = Fin (121 / 2)" "fsub (Fin (131 / 2)) (Fin 0) = Fin (131 / 2)"
  using to_number_exact[of "105 / 2" 105 "- 1"] to_number_exact[of "113 / 2" 113 "- 1"]
    to_number_exact[of "121 / 2" 121 "- 1"] to_number_exact[of "131 / 2" 131 "- 1"]
  by (simp_all add: fsub_def)

lemma pipeline_sum:
  "fsub (fadd (fadd (fmul (lit (40 / 100)) (Fin 70)) (fmul (lit (25 / 100)) (Fin 70)))
               (fmul (lit (20 / 100)) (Fin 100)))
        (fmul (lit (15 / 100)) (Fin 0)) = Fin (131 / 2)"
  unfolding mul_040_70 mul_025_70 mul_020_100 mul_015_0 add_28_half add_half_20 sub_0
  by (rule refl)

subsection \<open>The scores of the placeholder signals\<close>

lemma computeNicheScore_cases:
  "computeNicheScore c \<in> {Fin 35, Fin 55, Fin 75, Fin 100}"
  by (simp add: computeNicheScore_def)

lemma computeNicheScore_1: "computeNicheScore (Fin 1) = Fin 100"
  unfolding computeNicheScore_def lit_075 ge_def by simp

lemma computeNicheScore_0: "computeNicheScore (Fin 0) = Fin 35"
  unfolding computeNicheScore_def lit_075 lit_06 lit_045 ge_def by simp

lemma pipeline_erScore: "computeErScore (Fin (7926335344172073 / 2 ^ 57)) = Fin 70"
  by (simp add: computeErScore_Fin)

lemma pipeline_consistencyScore: "computeConsistencyScore (Fin 2) = Fin 70"
  by (simp add: computeConsistencyScore_def ge_def)

lemma pipeline_fraudPenalty:
  "computeFraudPenalty (Fin (7926335344172073 / 2 ^ 57)) (Fin 1000) (Fin 8) = Fin 0"
  unfolding computeFraudPenalty_def lit_0008 lit_012 gt_def Let_def
  by (simp add: clamp_Fin)

lemma pipeline_total:
  "computeTotalScore (Fin 70) (Some (Fin 0)) (Fin 70) (Fin 35) (Fin 0) False = Fin 53"
  "computeTotalScore (Fin 70) (Some (Fin 0)) (Fin 70) (Fin 55) (Fin 0) False = Fin 57"
  "computeTotalScore (Fin 70) (Some (Fin 0)) (Fin 70) (Fin 75) (Fin 0) False = Fin 61"
  "computeTotalScore (Fin 70) (Some (Fin 0)) (Fin 70) (Fin 100) (Fin 0) False = Fin 66"
  unfolding computeTotalScore_def Let_def mul_040_70 mul_025_70 mul_020_35 mul_020_55
    mul_020_75 mul_020_100 mul_015_0 add_28_half add_half_7 add_half_11 add_half_15
    add_half_20 sub_0
  by (simp_all add: clamp_Fin)

lemma scoreBlock_eq:
  "scoreBlock c =
     \<lparr>sb_er = Fin (7926335344172073 / 2 ^ 57), sb_erScore = Fin 70,
      sb_consistencyScore = Fin 70, sb_nicheScore = computeNicheScore c,
      sb_reachAvailable = False, sb_reachScore = Fin 0, sb_fraudPenalty = Fin 0,
      sb_total = computeTotalScore (Fin 70) (Some (Fin 0)) (Fin 70) (computeNicheScore c)
                   (Fin 0) False,
      sb_g = grade (computeTotalScore (Fin 70) (Some (Fin 0)) (Fin 70) (computeNicheScore c)
                      (Fin 0) False)\<rparr>"
  unfolding scoreBlock_def Let_def pipeline_er pipeline_per_week pipeline_erScore
    pipeline_consistencyScore pipeline_fraudPenalty
  by (simp add: computeReachScore_def)

lemma pipeline_total_bound:
  "le (computeTotalScore (Fin 70) (Some (Fin 0)) (Fin 70) (computeNicheScore c) (Fin 0) False)
      (Fin 66)
   \<and> grade (computeTotalScore (Fin 70) (Some (Fin 0)) (Fin 70) (computeNicheScore c) (Fin 0)
        False) \<noteq> A"
  using computeNicheScore_cases[of c]
  by (auto simp: pipeline_total grade_def ge_def)

text \<open>
  Claim C2.  With followers 1000, likes 50, comments 5, 8 contents in 30 days, niche
  confidence 1 and reach unavailable, the engagement rate is the number 0.055, the
  engagement score is 70, the consistency score (for 8 / 4 = 2 per week) is 70, the niche
  score is 100, the fraud penalty is 0; the weighted sum is exactly 65.5, \<open>Math.round\<close>
  takes the tie up to 66, and the grade is \<open>B\<close>.
\<close>

theorem scoreBlock_end_to_end:
  "scoreBlock (Fin 1) =
     \<lparr>sb_er = lit (55 / 1000), sb_erScore = Fin 70, sb_consistencyScore = Fin 70,
      sb_nicheScore = Fin 100, sb_reachAvailable = False, sb_reachScore = Fin 0,
      sb_fraudPenalty = Fin 0, sb_total = Fin 66, sb_g = B\<rparr>
   \<and> fdiv (Fin 8) (Fin 4) = Fin 2
   \<and> fsub (fadd (fadd (fmul (lit (40 / 100)) (Fin 70)) (fmul (lit (25 / 100)) (Fin 70)))
                  (fmul (lit (20 / 100)) (Fin 100)))
           (fmul (lit (15 / 100)) (Fin 0)) = Fin (131 / 2)
   \<and> Math_round (Fin (131 / 2)) = Fin 66"
  unfolding scoreBlock_eq computeNicheScore_1 pipeline_total pipeline_sum pipeline_per_week lit_0055
  by (simp add: grade_def ge_def)

section \<open>The pipeline\<close>

subsection \<open>The classifier never throws\<close>

lemma length_ranked: "length (ranked tx) = 7"
  by (simp add: ranked_def scores_def DICTS_def)

lemma classifyNiche_ok:
  "\<exists>n. classifyNiche lower bio declared = Inr n"
proof -
  define r where "r = ranked (lower (bio @ str '' '' @ declared))"
  have l: "length r = 7" by (simp add: r_def length_ranked)
  then obtain a r1 where r1: "r = a # r1" by (cases r) auto
  with l obtain b r2 where r2: "r1 = b # r2" by (cases r1) auto
  show ?thesis
    unfolding classifyNiche_def Let_def r_def[symmetric] r1 r2
    by (cases a; cases b) simp
qed

subsection \<open>The run, by the first statement that throws\<close>

lemma runQualification_cases:
  assumes n: "classifyNiche (toLowerCase e) []
             (case find (\<lambda>c. cr_id c = cid) (creators d) of None \<Rightarrow> []
              | Some c \<Rightarrow> (case cr_declared_category c of None \<Rightarrow> [] | Some x \<Rightarrow> x)) = Inr n"
  shows "runQualification e cid aid d =
     (let ts = toISOString e 0;
          d1 = d\<lparr>profile_snapshots := profile_snapshots d @
                 [\<lparr>ps_id = nanoid e 0, ps_account_id = aid,
                   ps_snapshot_date = take 10 (toISOString e 1), ps_created_at = ts\<rparr>]\<rparr>;
          d2 = d1\<lparr>content_metrics_daily := content_metrics_daily d @
                 [\<lparr>cm_id = nanoid e 1, cm_account_id = aid, cm_day = take 10 (toISOString e 2),
                   cm_posts_count = Fin 0, cm_reels_count = Fin 0, cm_likes_total = Fin 0,
                   cm_comments_total = Fin 0, cm_created_at = ts\<rparr>]\<rparr>;
          d3 = d2\<lparr>niche_classification := niche_classification d @
                 [\<lparr>nc_id = nanoid e 2, nc_creator_id = cid,
                   nc_primary_niche = primary_niche n,
                   nc_secondary_niches = secondary_niches n,
                   nc_confidence = confidence n,
                   nc_evidence_keywords = evidence_keywords n,
                   nc_model_version = str ''dict-v1'', nc_computed_at = ts\<rparr>]\<rparr>;
          sb = scoreBlock (confidence n);
          d4 = d3\<lparr>creator_scores := creator_scores d @
                 [\<lparr>cs_id = nanoid e 3, cs_creator_id = cid, cs_score_total = sb_total sb,
                   cs_grade = sb_g sb, cs_er_score = sb_erScore sb,
                   cs_reach_score = sb_reachScore sb,
                   cs_consistency_score = sb_consistencyScore sb,
                   cs_niche_score = sb_nicheScore sb, cs_fraud_penalty = sb_fraudPenalty sb,
                   cs_scoring_version = str ''score-v1'', cs_computed_at = ts\<rparr>]\<rparr>;
          targets = buildBrandTargets (primary_niche n);
          d5 = d4\<lparr>brand_targets_tbl := brand_targets_tbl d @
                 [\<lparr>bt_id = nanoid e 4, bt_creator_id = cid, bt_target_type = str ''local'',
                   bt_segment = primary_niche n,
                   bt_suggested_brands = targets_local targets, bt_generated_at = ts\<rparr>]\<rparr>;
          d6 = d5\<lparr>brand_targets_tbl := brand_targets_tbl d5 @
                 [\<lparr>bt_id = nanoid e 5, bt_creator_id = cid,
                   bt_target_type = str ''ecommerce'', bt_segment = primary_niche n,
                   bt_suggested_brands = targets_ecommerce targets, bt_generated_at = ts\<rparr>]\<rparr>;
          d7 = d6\<lparr>creators := setQualified ts cid (creators d)\<rparr>;
          d8 = d7\<lparr>audit_log := audit_log d @
                 [\<lparr>al_id = nanoid e 6, al_actor_type = str ''system'',
                   al_actor_id = str ''pipeline'', al_action = str ''QUALIFIED'',
                   al_target_type = str ''creator'', al_target_id = cid,
                   al_metadata = (sb_g sb, sb_total sb, primary_niche n),
                   al_created_at = toISOString e 3\<rparr>]\<rparr>
      in if throws e SelectCreator then (d, Inl SqliteError)
         else if throws e InsertProfileSnapshot then (d, Inl SqliteError)
         else if throws e InsertContentMetrics then (d1, Inl SqliteError)
         else if throws e InsertNicheClassification then (d2, Inl SqliteError)
         else if throws e InsertCreatorScore then (d3, Inl SqliteError)
         else if throws e InsertBrandTargetLocal then (d4, Inl SqliteError)
         else if throws e InsertBrandTargetEcommerce then (d5, Inl SqliteError)
         else if throws e UpdateCreatorStatus then (d6, Inl SqliteError)
         else if throws e InsertAuditLog then (d7, Inl SqliteError)
         else (d8, Inr ()))"
  unfolding runQualification_def run_def Let_def n by simp

subsection \<open>Failure and the stored rows\<close>

lemma runQualification_failure:
  assumes "throws e s" and "s \<noteq> InsertAuditLog"
  shows "snd (runQualification e cid aid d) = Inl SqliteError
         \<and> creators (fst (runQualification e cid aid d)) = creators d
         \<and> audit_log (fst (runQualification e cid aid d)) = audit_log d"
proof -
  obtain n where n: "classifyNiche (toLowerCase e) []
             (case find (\<lambda>c. cr_id c = cid) (creators d) of None \<Rightarrow> []
              | Some c \<Rightarrow> (case cr_declared_category c of None \<Rightarrow> [] | Some x \<Rightarrow> x)) = Inr n"
    using classifyNiche_ok by blast
  show ?thesis
    using assms unfolding runQualification_cases[OF n] Let_def
    by (cases s) auto
qed

lemma runQualification_grows:
  "\<exists>ps ms ns ss bs. 
      profile_snapshots (fst (runQualification e cid aid d)) = profile_snapshots d @ ps
    \<and> content_metrics_daily (fst (runQualification e cid aid d)) = content_metrics_daily d @ ms
    \<and> niche_classification (fst (runQualification e cid aid d)) = niche_classification d @ ns
    \<and> creator_scores (fst (runQualification e cid aid d)) = creator_scores d @ ss
    \<and> brand_targets_tbl (fst (runQualification e cid aid d)) = brand_targets_tbl d @ bs"
proof -
  obtain n where n: "classifyNiche (toLowerCase e) []
             (case find (\<lambda>c. cr_id c = cid) (creators d) of None \<Rightarrow> []
              | Some c \<Rightarrow> (case cr_declared_category c of None \<Rightarrow> [] | Some x \<Rightarrow> x)) = Inr n"
    using classifyNiche_ok by blast
  show ?thesis
    unfolding runQualification_cases[OF n] Let_def by simp
qed

lemma runQualification_later_steps:
  assumes "throws e s"
  shows "(s \<in> {SelectCreator, InsertProfileSnapshot, InsertContentMetrics, InsertNicheClassification}
            \<longrightarrow> niche_classification (fst (runQualification e cid aid d)) = niche_classification d)
       \<and> (s \<in> {SelectCreator, InsertProfileSnapshot, InsertContentMetrics, InsertNicheClassification,
                 InsertCreatorScore}
            \<longrightarrow> creator_scores (fst (runQualification e cid aid d)) = creator_scores d)
       \<and> (s \<in> {SelectCreator, InsertProfileSnapshot, InsertContentMetrics, InsertNicheClassification,
                 InsertCreatorScore, InsertBrandTargetLocal}
            \<longrightarrow> brand_targets_tbl (fst (runQualification e cid aid d)) = brand_targets_tbl d)"
proof -
  obtain n where n: "classifyNiche (toLowerCase e) []
             (case find (\<lambda>c. cr_id c = cid) (creators d) of None \<Rightarrow> []
              | Some c \<Rightarrow> (case cr_declared_category c of None \<Rightarrow> [] | Some x \<Rightarrow> x)) = Inr n"
    using classifyNiche_ok by blast
  show ?thesis
    using assms unfolding runQualification_cases[OF n] Let_def
    by (cases s) auto
qed

text \<open>
  Claim C10.  Whenever a run stores a score row, that row has engagement score 70,
  consistency score 70, fraud penalty 0 and reach score 0 (reach being unavailable); its
  total is the reach-less formula applied to these constants and the niche score, so it
  depends on the stored niche confidence alone; the total is at most 66 and the grade is
  never \<open>A\<close>.
\<close>

theorem runQualification_score_row:
  assumes "creator_scores (fst (runQualification e cid aid d)) \<noteq> creator_scores d"
  shows "\<exists>nrow srow.
           niche_classification (fst (runQualification e cid aid d)) = niche_classification d @ [nrow]
         \<and> creator_scores (fst (runQualification e cid aid d)) = creator_scores d @ [srow]
         \<and> cs_er_score srow = Fin 70 \<and> cs_consistency_score srow = Fin 70
         \<and> cs_fraud_penalty srow = Fin 0 \<and> cs_reach_score srow = Fin 0
         \<and> cs_niche_score srow = computeNicheScore (nc_confidence nrow)
         \<and> cs_score_total srow =
             computeTotalScore (Fin 70) (Some (Fin 0)) (Fin 70)
               (computeNicheScore (nc_confidence nrow)) (Fin 0) False
         \<and> le (cs_score_total srow) (Fin 66)
         \<and> cs_grade srow = grade (cs_score_total srow) \<and> cs_grade srow \<noteq> A"
proof -
  obtain n where n: "classifyNiche (toLowerCase e) []
             (case find (\<lambda>c. cr_id c = cid) (creators d) of None \<Rightarrow> []
              | Some c \<Rightarrow> (case cr_declared_category c of None \<Rightarrow> [] | Some x \<Rightarrow> x)) = Inr n"
    using classifyNiche_ok by blast
  show ?thesis
    using assms pipeline_total_bound[of "confidence n"]
    unfolding runQualification_cases[OF n] Let_def scoreBlock_eq
    by (simp split: if_splits)
qed

subsection \<open>The sample run\<close>

lemma scores_sushi:
  "scores (str '' sushi'') =
     [(str ''food'', 1), (str ''beauty'', 0), (str ''fitness'', 0), (str ''tech'', 0),
      (str ''family'', 0), (str ''travel'', 0), (str ''fashion'', 0)]"
  by (simp add: scores_def scanWords_def hit_def DICTS_def str_def)

lemma evidence_sushi: "evidence (str '' sushi'') (str ''food'') = Some [str ''sushi'']"
  by (simp add: evidence_def scanWords_def hit_def DICTS_def str_def)

lemma to_number_1: "to_number 1 = Fin 1"
  using to_number_of_int[of 1] by simp

lemma floor_201_half: "\<lfloor>(201::rat) / 2\<rfloor> = 100"
  by (rule floor_unique) simp_all

lemma Number_toFixed2_1: "Number_toFixed2 (Fin 1) = Fin 1"
  by (simp add: to_number_1 floor_201_half)

lemma classifyNiche_sushi:
  "classifyNiche (\<lambda>s. s) [] (str ''sushi'') =
     Inr \<lparr>primary_niche = str ''food'', secondary_niches = [],
          confidence = Fin 1, evidence_keywords = [str ''sushi'']\<rparr>"
proof -
  have tx: "[] @ str '' '' @ str ''sushi'' = str '' sushi''" by (simp add: str_def)
  have r: "ranked (str '' sushi'') =
     [(str ''food'', 1), (str ''beauty'', 0), (str ''fitness'', 0), (str ''tech'', 0),
      (str ''family'', 0), (str ''travel'', 0), (str ''fashion'', 0)]"
    unfolding ranked_def scores_sushi by simp
  have t: "totalHits [(str ''food'', Suc 0), (str ''beauty'', 0), (str ''fitness'', 0),
      (str ''tech'', 0), (str ''family'', 0), (str ''travel'', 0), (str ''fashion'', 0)] = Suc 0"
    by (simp add: totalHits_def)
  show ?thesis
    unfolding classifyNiche_def Let_def tx r
    by (simp add: t evidence_sushi to_number_1 Number_toFixed2_1 del: Number_toFixed2.simps)
qed

lemma sample_classification:
  "classifyNiche (toLowerCase (sample_env f)) []
     (case find (\<lambda>c. cr_id c = str ''c1'') (creators sample_db) of None \<Rightarrow> []
      | Some c \<Rightarrow> (case cr_declared_category c of None \<Rightarrow> [] | Some x \<Rightarrow> x)) =
   Inr \<lparr>primary_niche = str ''food'', secondary_niches = [],
        confidence = Fin 1, evidence_keywords = [str ''sushi'']\<rparr>"
  by (simp add: sample_env_def sample_db_def classifyNiche_sushi)

lemmas sample_run = runQualification_cases[OF sample_classification]


lemma sample_run_ok:
  "snd (runQualification (sample_env no_failure) (str ''c1'') (str ''a1'') sample_db) = Inr ()
   \<and> creator_scores (fst (runQualification (sample_env no_failure) (str ''c1'') (str ''a1'') sample_db)) =
       [\<lparr>cs_id = str ''id3'', cs_creator_id = str ''c1'', cs_score_total = Fin 66,
         cs_grade = B, cs_er_score = Fin 70, cs_reach_score = Fin 0,
         cs_consistency_score = Fin 70, cs_niche_score = Fin 100, cs_fraud_penalty = Fin 0,
         cs_scoring_version = str ''score-v1'',
         cs_computed_at = str ''2026-01-31T10:05:00.000Z''\<rparr>]
   \<and> map cr_status (creators (fst (runQualification (sample_env no_failure) (str ''c1'') (str ''a1'') sample_db))) =
       [str ''qualified'']"
  unfolding sample_run Let_def
  by (simp add: scoreBlock_eq computeNicheScore_1 pipeline_total sample_env_def sample_db_def
        no_failure_def str_def setQualified_def grade_def ge_def)

text \<open>
  When only the audit-log insert throws, the invocation fails after the status update:
  the creator is already \<open>qualified\<close>.
\<close>

lemma sample_run_audit_fails:
  "snd (runQualification (sample_env audit_insert_fails) (str ''c1'') (str ''a1'') sample_db) =
     Inl SqliteError
   \<and> map cr_status (creators (fst (runQualification (sample_env audit_insert_fails) (str ''c1'') (str ''a1'') sample_db))) =
       [str ''qualified'']"
  unfolding sample_run Let_def
  by (simp add: sample_env_def sample_db_def audit_insert_fails_def str_def setQualified_def)

text \<open>
  The sample run without a failure stores the score row of a confidence of 1: total 66,
  grade \<open>B\<close>.
\<close>

theorem runQualification_score_row_witness:
  "creator_scores (fst (runQualification (sample_env no_failure) (str ''c1'') (str ''a1'') sample_db))
     \<noteq> creator_scores sample_db
   \<and> (\<exists>nrow srow.
         niche_classification (fst (runQualification (sample_env no_failure) (str ''c1'') (str ''a1'') sample_db)) =
           niche_classification sample_db @ [nrow]
       \<and> creator_scores (fst (runQualification (sample_env no_failure) (str ''c1'') (str ''a1'') sample_db)) =
           creator_scores sample_db @ [srow]
       \<and> cs_er_score srow = Fin 70 \<and> cs_consistency_score srow = Fin 70
       \<and> cs_fraud_penalty srow = Fin 0 \<and> cs_reach_score srow = Fin 0
       \<and> cs_score_total srow = Fin 66 \<and> le (cs_score_total srow) (Fin 66)
       \<and> cs_grade srow = B)"
proof -
  have h: "creator_scores (fst (runQualification (sample_env no_failure) (str ''c1'') (str ''a1'') sample_db))
     \<noteq> creator_scores sample_db"
    using sample_run_ok by (simp add: sample_db_def)
  from runQualification_score_row[OF h] h sample_run_ok show ?thesis
    by (auto simp: sample_db_def)
qed







section \<open>The total score\<close>

subsection \<open>Rounding errors of the products and sums\<close>

lemma to_number_approx:
  assumes "\<bar>x\<bar> < 128"
  shows "\<exists>y. to_number x = Fin y \<and> \<bar>y - x\<bar> \<le> 2 powi (- 47)"
proof -
  have "\<bar>x\<bar> < 2 powi 7" using assms by simp
  then have e: "\<bar>fl x - x\<bar> \<le> 2 powi (7 - 54)" by (rule fl_error) simp
  then have e': "\<bar>fl x - x\<bar> \<le> 2 powi (- 47)" by simp
  have "(2::rat) powi (- 47) \<le> 1" by simp
  with e' assms have "\<bar>fl x\<bar> < 129" by linarith
  also have "\<dots> < (2::rat) ^ 1024" by simp
  finally have "to_number x = Fin (fl x)"
    by (simp add: to_number_def Let_def abs_less_iff not_le)
  with e' show ?thesis by blast
qed

lemma fmul_approx:
  assumes a: "\<bar>a - q\<bar> \<le> 2 powi (- 54)" and q: "\<bar>q\<bar> \<le> 1 / 2"
    and x: "0 \<le> x" "x \<le> 100"
  shows "\<exists>p. fmul (Fin a) (Fin x) = Fin p \<and> \<bar>p - q * x\<bar> \<le> 2 powi (- 46)"
proof -
  have d: "\<bar>a * x - q * x\<bar> \<le> 2 powi (- 54) * 100"
  proof -
    have "\<bar>a * x - q * x\<bar> = \<bar>a - q\<bar> * x" using x by (simp add: abs_mult flip: left_diff_distrib)
    also have "\<dots> \<le> 2 powi (- 54) * 100" using a x by (intro mult_mono) auto
    finally show ?thesis .
  qed
  have "\<bar>q * x\<bar> \<le> 1 / 2 * 100" unfolding abs_mult using q x by (intro mult_mono) auto
  moreover have "(2::rat) powi (- 54) * 100 \<le> 1" by simp
  ultimately have "\<bar>a * x\<bar> < 128" using d by linarith
  from to_number_approx[OF this] obtain p where p: "to_number (a * x) = Fin p"
    "\<bar>p - a * x\<bar> \<le> 2 powi (- 47)" by blast
  have "(2::rat) powi (- 54) * 100 + 2 powi (- 47) \<le> 2 powi (- 46)" by simp
  with p(2) d have "\<bar>p - q * x\<bar> \<le> 2 powi (- 46)" by linarith
  with p(1) show ?thesis by simp
qed

lemma fadd_approx:
  assumes "\<bar>x + y\<bar> < 128"
  shows "\<exists>s. fadd (Fin x) (Fin y) = Fin s \<and> \<bar>s - (x + y)\<bar> \<le> 2 powi (- 47)"
  using to_number_approx[OF assms] by simp

lemma fsub_approx:
  assumes "\<bar>x - y\<bar> < 128"
  shows "\<exists>s. fsub (Fin x) (Fin y) = Fin s \<and> \<bar>s - (x - y)\<bar> \<le> 2 powi (- 47)"
  using to_number_approx[OF assms] by (simp add: fsub_def)

lemma round_near_grid:
  fixes y :: rat
  assumes "\<bar>y - of_int k / 20\<bar> \<le> 1 / 40"
  shows "\<bar>of_int \<lfloor>y + 1 / 2\<rfloor> - (of_int k / 20 :: rat)\<bar> \<le> 1 / 2"
proof -
  define m where "m = \<lfloor>y + 1 / 2\<rfloor>"
  have "of_int m \<le> y + 1 / 2" "y + 1 / 2 < of_int m + 1"
    using floor_correct[of "y + 1 / 2"] by (auto simp: m_def)
  with assms have "20 * of_int m - 11 < (of_int k :: rat)" "(of_int k :: rat) < 20 * of_int m + 11"
    by linarith+
  then have "(of_int (20 * m - 11) :: rat) < of_int k" "(of_int k :: rat) < of_int (20 * m + 11)"
    by simp_all
  then have "20 * m - 11 < k" "k < 20 * m + 11" by (simp_all only: of_int_less_iff)
  then have "20 * m - 10 \<le> k" "k \<le> 20 * m + 10" by simp_all
  then have "(of_int (20 * m - 10) :: rat) \<le> of_int k" "(of_int k :: rat) \<le> of_int (20 * m + 10)"
    by (simp_all only: of_int_le_iff)
  then have "20 * of_int m - 10 \<le> (of_int k :: rat)" "(of_int k :: rat) \<le> 20 * of_int m + 10"
    by simp_all
  then show ?thesis unfolding m_def[symmetric] by linarith
qed

lemma lit_030: "lit (30 / 100) = Fin (5404319552844595 / 2 ^ 54)"
  unfolding lit_def using to_number_eqI[of "30 / 100" "- 2" 5404319552844595] by simp
lemma lit_010: "lit (10 / 100) = Fin (3602879701896397 / 2 ^ 55)"
  unfolding lit_def using to_number_eqI[of "10 / 100" "- 4" 7205759403792794] by simp

lemma of_int_range:
  fixes x :: int
  assumes "0 \<le> x" "x \<le> 100"
  shows "(0::rat) \<le> of_int x" "(of_int x :: rat) \<le> 100"
  using assms by simp_all

lemma fmul_lit_two_sided:
  assumes "lit l = Fin a" "\<bar>a - q\<bar> \<le> 2 powi (- 54)" "\<bar>q\<bar> \<le> 1 / 2" "0 \<le> x" "x \<le> 100"
  shows "\<exists>p. fmul (lit l) (Fin x) = Fin p \<and> q * x - 2 powi (- 46) \<le> p \<and> p \<le> q * x + 2 powi (- 46)"
proof -
  from fmul_approx[OF assms(2-5)] obtain p
    where p: "fmul (Fin a) (Fin x) = Fin p" "\<bar>p - q * x\<bar> \<le> 2 powi (- 46)" by blast
  from p(2) have "q * x - 2 powi (- 46) \<le> p" "p \<le> q * x + 2 powi (- 46)" by linarith+
  with p(1) show ?thesis unfolding assms(1) by blast
qed

lemma fadd_two_sided:
  assumes "- 128 < x + y" "x + y < 128"
  shows "\<exists>s. fadd (Fin x) (Fin y) = Fin s \<and> x + y - 2 powi (- 47) \<le> s \<and> s \<le> x + y + 2 powi (- 47)"
proof -
  from assms have "\<bar>x + y\<bar> < 128" by linarith
  from fadd_approx[OF this] obtain s
    where s: "fadd (Fin x) (Fin y) = Fin s" "\<bar>s - (x + y)\<bar> \<le> 2 powi (- 47)" by blast
  from s(2) have "x + y - 2 powi (- 47) \<le> s" "s \<le> x + y + 2 powi (- 47)" by linarith+
  with s(1) show ?thesis by blast
qed

lemma fsub_two_sided:
  assumes "- 128 < x - y" "x - y < 128"
  shows "\<exists>s. fsub (Fin x) (Fin y) = Fin s \<and> x - y - 2 powi (- 47) \<le> s \<and> s \<le> x - y + 2 powi (- 47)"
proof -
  from assms have "\<bar>x - y\<bar> < 128" by linarith
  from fsub_approx[OF this] obtain s
    where s: "fsub (Fin x) (Fin y) = Fin s" "\<bar>s - (x - y)\<bar> \<le> 2 powi (- 47)" by blast
  from s(2) have "x - y - 2 powi (- 47) \<le> s" "s \<le> x - y + 2 powi (- 47)" by linarith+
  with s(1) show ?thesis by blast
qed

lemma total_unavailable:
  fixes e c n f :: int
  assumes "0 \<le> e" "e \<le> 100" "0 \<le> c" "c \<le> 100" "0 \<le> n" "n \<le> 100" "0 \<le> f" "f \<le> 100"
  shows "\<exists>y. fsub (fadd (fadd (fmul (lit (40 / 100)) (Fin (of_int e)))
                                 (fmul (lit (25 / 100)) (Fin (of_int c))))
                           (fmul (lit (20 / 100)) (Fin (of_int n))))
                     (fmul (lit (15 / 100)) (Fin (of_int f))) = Fin y
           \<and> \<bar>y - of_int (8 * e + 5 * c + 4 * n - 3 * f) / 20\<bar> \<le> 1 / 40"
proof -
  define E C N F :: rat where "E = of_int e" and "C = of_int c" and "N = of_int n" and "F = of_int f"
  have b: "0 \<le> E" "E \<le> 100" "0 \<le> C" "C \<le> 100" "0 \<le> N" "N \<le> 100" "0 \<le> F" "F \<le> 100"
    using assms by (simp_all add: E_def C_def N_def F_def)
  have d: "(2::rat) powi (- 46) = 1 / 2 ^ 46" "(2::rat) powi (- 47) = 1 / 2 ^ 47"
    by (simp_all add: power_int_minus field_simps)
  obtain p1 where p1: "fmul (lit (40 / 100)) (Fin E) = Fin p1"
      "2 / 5 * E - 2 powi (- 46) \<le> p1" "p1 \<le> 2 / 5 * E + 2 powi (- 46)"
    using fmul_lit_two_sided[OF lit_040 _ _ b(1,2), of "2 / 5"] by auto
  obtain p2 where p2: "fmul (lit (25 / 100)) (Fin C) = Fin p2"
      "1 / 4 * C - 2 powi (- 46) \<le> p2" "p2 \<le> 1 / 4 * C + 2 powi (- 46)"
    using fmul_lit_two_sided[OF lit_025 _ _ b(3,4), of "1 / 4"] by auto
  obtain p3 where p3: "fmul (lit (20 / 100)) (Fin N) = Fin p3"
      "1 / 5 * N - 2 powi (- 46) \<le> p3" "p3 \<le> 1 / 5 * N + 2 powi (- 46)"
    using fmul_lit_two_sided[OF lit_020 _ _ b(5,6), of "1 / 5"] by auto
  obtain p4 where p4: "fmul (lit (15 / 100)) (Fin F) = Fin p4"
      "3 / 20 * F - 2 powi (- 46) \<le> p4" "p4 \<le> 3 / 20 * F + 2 powi (- 46)"
    using fmul_lit_two_sided[OF lit_015 _ _ b(7,8), of "3 / 20"] by auto
  note p = p1(2,3) p2(2,3) p3(2,3) p4(2,3)
  obtain s1 where s1: "fadd (Fin p1) (Fin p2) = Fin s1"
      "p1 + p2 - 2 powi (- 47) \<le> s1" "s1 \<le> p1 + p2 + 2 powi (- 47)"
    using fadd_two_sided[of p1 p2] p b unfolding d by fastforce
  obtain s2 where s2: "fadd (Fin s1) (Fin p3) = Fin s2"
      "s1 + p3 - 2 powi (- 47) \<le> s2" "s2 \<le> s1 + p3 + 2 powi (- 47)"
    using fadd_two_sided[of s1 p3] p b s1(2,3) unfolding d by fastforce
  obtain y where y: "fsub (Fin s2) (Fin p4) = Fin y"
      "s2 - p4 - 2 powi (- 47) \<le> y" "y \<le> s2 - p4 + 2 powi (- 47)"
    using fsub_two_sided[of s2 p4] p b s1(2,3) s2(2,3) unfolding d by fastforce
  have "(of_int (8 * e + 5 * c + 4 * n - 3 * f) :: rat) / 20 = 2 / 5 * E + 1 / 4 * C + 1 / 5 * N - 3 / 20 * F"
    by (simp add: E_def C_def N_def F_def)
  moreover have "2 / 5 * E + 1 / 4 * C + 1 / 5 * N - 3 / 20 * F - 1 / 40 \<le> y"
    using p s1(2,3) s2(2,3) y(2,3) unfolding d by (simp; linarith)
  moreover have "y \<le> 2 / 5 * E + 1 / 4 * C + 1 / 5 * N - 3 / 20 * F + 1 / 40"
    using p s1(2,3) s2(2,3) y(2,3) unfolding d by (simp; linarith)
  ultimately have "\<bar>y - of_int (8 * e + 5 * c + 4 * n - 3 * f) / 20\<bar> \<le> 1 / 40"
    by (simp only: abs_le_iff) linarith
  then show ?thesis
    using p1(1) p2(1) p3(1) p4(1) s1(1) s2(1) y(1) by (simp add: E_def C_def N_def F_def)
qed

lemma total_available:
  fixes e r c n f :: int
  assumes "0 \<le> e" "e \<le> 100" "0 \<le> r" "r \<le> 100" "0 \<le> c" "c \<le> 100"
    "0 \<le> n" "n \<le> 100" "0 \<le> f" "f \<le> 100"
  shows "\<exists>y. fsub (fadd (fadd (fadd (fmul (lit (30 / 100)) (Fin (of_int e)))
                                       (fmul (lit (25 / 100)) (Fin (of_int r))))
                                 (fmul (lit (20 / 100)) (Fin (of_int c))))
                           (fmul (lit (15 / 100)) (Fin (of_int n))))
                     (fmul (lit (10 / 100)) (Fin (of_int f))) = Fin y
           \<and> \<bar>y - of_int (6 * e + 5 * r + 4 * c + 3 * n - 2 * f) / 20\<bar> \<le> 1 / 40"
proof -
  define E R C N F :: rat
    where "E = of_int e" and "R = of_int r" and "C = of_int c" and "N = of_int n" and "F = of_int f"
  have b: "0 \<le> E" "E \<le> 100" "0 \<le> R" "R \<le> 100" "0 \<le> C" "C \<le> 100" "0 \<le> N" "N \<le> 100"
    "0 \<le> F" "F \<le> 100"
    using assms by (simp_all add: E_def R_def C_def N_def F_def)
  have d: "(2::rat) powi (- 46) = 1 / 2 ^ 46" "(2::rat) powi (- 47) = 1 / 2 ^ 47"
    by (simp_all add: power_int_minus field_simps)
  obtain p1 where p1: "fmul (lit (30 / 100)) (Fin E) = Fin p1"
      "3 / 10 * E - 2 powi (- 46) \<le> p1" "p1 \<le> 3 / 10 * E + 2 powi (- 46)"
    using fmul_lit_two_sided[OF lit_030 _ _ b(1,2), of "3 / 10"] by auto
  obtain p2 where p2: "fmul (lit (25 / 100)) (Fin R) = Fin p2"
      "1 / 4 * R - 2 powi (- 46) \<le> p2" "p2 \<le> 1 / 4 * R + 2 powi (- 46)"
    using fmul_lit_two_sided[OF lit_025 _ _ b(3,4), of "1 / 4"] by auto
  obtain p3 where p3: "fmul (lit (20 / 100)) (Fin C) = Fin p3"
      "1 / 5 * C - 2 powi (- 46) \<le> p3" "p3 \<le> 1 / 5 * C + 2 powi (- 46)"
    using fmul_lit_two_sided[OF lit_020 _ _ b(5,6), of "1 / 5"] by auto
  obtain p4 where p4: "fmul (lit (15 / 100)) (Fin N) = Fin p4"
      "3 / 20 * N - 2 powi (- 46) \<le> p4" "p4 \<le> 3 / 20 * N + 2 powi (- 46)"
    using fmul_lit_two_sided[OF lit_015 _ _ b(7,8), of "3 / 20"] by auto
  obtain p5 where p5: "fmul (lit (10 / 100)) (Fin F) = Fin p5"
      "1 / 10 * F - 2 powi (- 46) \<le> p5" "p5 \<le> 1 / 10 * F + 2 powi (- 46)"
    using fmul_lit_two_sided[OF lit_010 _ _ b(9,10), of "1 / 10"] by auto
  note p = p1(2,3) p2(2,3) p3(2,3) p4(2,3) p5(2,3)
  obtain s1 where s1: "fadd (Fin p1) (Fin p2) = Fin s1"
      "p1 + p2 - 2 powi (- 47) \<le> s1" "s1 \<le> p1 + p2 + 2 powi (- 47)"
    using fadd_two_sided[of p1 p2] p b unfolding d by fastforce
  obtain s2 where s2: "fadd (Fin s1) (Fin p3) = Fin s2"
      "s1 + p3 - 2 powi (- 47) \<le> s2" "s2 \<le> s1 + p3 + 2 powi (- 47)"
    using fadd_two_sided[of s1 p3] p b s1(2,3) unfolding d by fastforce
  obtain s3 where s3: "fadd (Fin s2) (Fin p4) = Fin s3"
      "s2 + p4 - 2 powi (- 47) \<le> s3" "s3 \<le> s2 + p4 + 2 powi (- 47)"
    using fadd_two_sided[of s2 p4] p b s1(2,3) s2(2,3) unfolding d by fastforce
  obtain y where y: "fsub (Fin s3) (Fin p5) = Fin y"
      "s3 - p5 - 2 powi (- 47) \<le> y" "y \<le> s3 - p5 + 2 powi (- 47)"
    using fsub_two_sided[of s3 p5] p b s1(2,3) s2(2,3) s3(2,3) unfolding d by fastforce
  have "(of_int (6 * e + 5 * r + 4 * c + 3 * n - 2 * f) :: rat) / 20 =
          3 / 10 * E + 1 / 4 * R + 1 / 5 * C + 3 / 20 * N - 1 / 10 * F"
    by (simp add: E_def R_def C_def N_def F_def)
  moreover have "3 / 10 * E + 1 / 4 * R + 1 / 5 * C + 3 / 20 * N - 1 / 10 * F - 1 / 40 \<le> y"
    using p s1(2,3) s2(2,3) s3(2,3) y(2,3) unfolding d by (simp; linarith)
  moreover have "y \<le> 3 / 10 * E + 1 / 4 * R + 1 / 5 * C + 3 / 20 * N - 1 / 10 * F + 1 / 40"
    using p s1(2,3) s2(2,3) s3(2,3) y(2,3) unfolding d by (simp; linarith)
  ultimately have "\<bar>y - of_int (6 * e + 5 * r + 4 * c + 3 * n - 2 * f) / 20\<bar> \<le> 1 / 40"
    by (simp only: abs_le_iff) linarith
  then show ?thesis
    using p1(1) p2(1) p3(1) p4(1) p5(1) s1(1) s2(1) s3(1) y(1)
    by (simp add: E_def R_def C_def N_def F_def)
qed

subsection \<open>Rounding and clamping\<close>

lemma clamp_round:
  "clamp (Math_round (Fin y)) (Fin 0) (Fin 100) =
     Fin (of_int (max 0 (min 100 \<lfloor>y + 1 / 2\<rfloor>)))"
proof -
  have "clamp (Fin (of_int m)) (Fin 0) (Fin 100) = Fin (of_int (max 0 (min 100 m)))" for m :: int
    by (simp add: clamp_Fin max_def min_def)
  then show ?thesis by simp
qed

text \<open>
  Claim C4.  For integer sub-scores between 0 and 100 (the reach score absent or
  unavailable, or present and available) and an integer fraud penalty between 0 and 30,
  \<open>computeTotalScore\<close> returns an integer \<open>t\<close> between 0 and 100: \<open>t\<close> is the clamp to
  \<open>[0, 100]\<close> of an integer \<open>m\<close> nearest to the weighted sum of the specification, the
  first formula being used exactly when reach is available and the reach score is a
  number.
\<close>

theorem computeTotalScore_range:
  fixes erScore consistencyScore nicheScore fraudPenalty :: int and reachScore :: "int option"
  assumes "0 \<le> erScore" "erScore \<le> 100" "0 \<le> consistencyScore" "consistencyScore \<le> 100"
    and "0 \<le> nicheScore" "nicheScore \<le> 100" "0 \<le> fraudPenalty" "fraudPenalty \<le> 30"
    and "case reachScore of None \<Rightarrow> True | Some r \<Rightarrow> 0 \<le> r \<and> r \<le> 100"
  shows "\<exists>m t. computeTotalScore (Fin (of_int erScore)) (map_option (\<lambda>r. Fin (of_int r)) reachScore)
                 (Fin (of_int consistencyScore)) (Fin (of_int nicheScore))
                 (Fin (of_int fraudPenalty)) reachAvailable = Fin (of_int t)
               \<and> 0 \<le> t \<and> t \<le> 100 \<and> t = max 0 (min 100 m)
               \<and> \<bar>of_int m - weighted_sum erScore (if reachAvailable then reachScore else None)
                      consistencyScore nicheScore fraudPenalty\<bar> \<le> 1 / 2"
proof (cases "if reachAvailable then reachScore else None")
  case None
  from total_unavailable[of erScore consistencyScore nicheScore fraudPenalty] assms
  obtain y where y: "fsub (fadd (fadd (fmul (lit (40 / 100)) (Fin (of_int erScore)))
                                 (fmul (lit (25 / 100)) (Fin (of_int consistencyScore))))
                           (fmul (lit (20 / 100)) (Fin (of_int nicheScore))))
                     (fmul (lit (15 / 100)) (Fin (of_int fraudPenalty))) = Fin y"
    "\<bar>y - of_int (8 * erScore + 5 * consistencyScore + 4 * nicheScore - 3 * fraudPenalty) / 20\<bar> \<le> 1 / 40"
    by auto
  have opt: "(if reachAvailable then map_option (\<lambda>r. Fin (of_int r)) reachScore else None) = None"
    using None by (auto split: if_splits)
  have c: "computeTotalScore (Fin (of_int erScore)) (map_option (\<lambda>r. Fin (of_int r)) reachScore)
                 (Fin (of_int consistencyScore)) (Fin (of_int nicheScore))
                 (Fin (of_int fraudPenalty)) reachAvailable =
           Fin (of_int (max 0 (min 100 \<lfloor>y + 1 / 2\<rfloor>)))"
    unfolding computeTotalScore_def opt Let_def y(1) option.case by (rule clamp_round)
  have w: "weighted_sum erScore (if reachAvailable then reachScore else None)
             consistencyScore nicheScore fraudPenalty =
           of_int (8 * erScore + 5 * consistencyScore + 4 * nicheScore - 3 * fraudPenalty) / 20"
    unfolding None by (simp add: weighted_sum_def)
  have "\<bar>of_int \<lfloor>y + 1 / 2\<rfloor> - weighted_sum erScore (if reachAvailable then reachScore else None)
                      consistencyScore nicheScore fraudPenalty\<bar> \<le> 1 / 2"
    unfolding w using y(2) by (rule round_near_grid)
  with c show ?thesis by (intro exI[of _ "\<lfloor>y + 1 / 2\<rfloor>"] exI[of _ "max 0 (min 100 \<lfloor>y + 1 / 2\<rfloor>)"]) simp
next
  case (Some r)
  then have ra: "reachAvailable" "reachScore = Some r" by (auto split: if_splits)
  with assms have rr: "0 \<le> r" "r \<le> 100" by auto
  from total_available[of erScore r consistencyScore nicheScore fraudPenalty] assms rr
  obtain y where y: "fsub (fadd (fadd (fadd (fmul (lit (30 / 100)) (Fin (of_int erScore)))
                                       (fmul (lit (25 / 100)) (Fin (of_int r))))
                                 (fmul (lit (20 / 100)) (Fin (of_int consistencyScore))))
                           (fmul (lit (15 / 100)) (Fin (of_int nicheScore))))
                     (fmul (lit (10 / 100)) (Fin (of_int fraudPenalty))) = Fin y"
    "\<bar>y - of_int (6 * erScore + 5 * r + 4 * consistencyScore + 3 * nicheScore - 2 * fraudPenalty) / 20\<bar> \<le> 1 / 40"
    by auto
  have opt: "(if reachAvailable then map_option (\<lambda>r. Fin (of_int r)) reachScore else None) =
             Some (Fin (of_int r))"
    using ra by simp
  have c: "computeTotalScore (Fin (of_int erScore)) (map_option (\<lambda>r. Fin (of_int r)) reachScore)
                 (Fin (of_int consistencyScore)) (Fin (of_int nicheScore))
                 (Fin (of_int fraudPenalty)) reachAvailable =
           Fin (of_int (max 0 (min 100 \<lfloor>y + 1 / 2\<rfloor>)))"
    unfolding computeTotalScore_def opt Let_def y(1) option.case by (rule clamp_round)
  have w: "weighted_sum erScore (if reachAvailable then reachScore else None)
             consistencyScore nicheScore fraudPenalty =
           of_int (6 * erScore + 5 * r + 4 * consistencyScore + 3 * nicheScore - 2 * fraudPenalty) / 20"
    unfolding Some by (simp add: weighted_sum_def)
  have "\<bar>of_int \<lfloor>y + 1 / 2\<rfloor> - weighted_sum erScore (if reachAvailable then reachScore else None)
                      consistencyScore nicheScore fraudPenalty\<bar> \<le> 1 / 2"
    unfolding w using y(2) by (rule round_near_grid)
  with c show ?thesis by (intro exI[of _ "\<lfloor>y + 1 / 2\<rfloor>"] exI[of _ "max 0 (min 100 \<lfloor>y + 1 / 2\<rfloor>)"]) simp
qed

text \<open>
  The sub-scores of the pipeline with reach unavailable, and a set of ladder values with
  reach available.
\<close>

theorem computeTotalScore_range_witness:
  "(\<exists>m t. computeTotalScore (Fin 70) None (Fin 70) (Fin 100) (Fin 0) False = Fin (of_int t)
          \<and> 0 \<le> t \<and> t \<le> 100 \<and> t = max 0 (min 100 m)
          \<and> \<bar>of_int m - weighted_sum 70 None 70 100 0\<bar> \<le> 1 / 2)
   \<and> (\<exists>m t. computeTotalScore (Fin 100) (Some (Fin 75)) (Fin 40) (Fin 55) (Fin 10) True = Fin (of_int t)
          \<and> 0 \<le> t \<and> t \<le> 100 \<and> t = max 0 (min 100 m)
          \<and> \<bar>of_int m - weighted_sum 100 (Some 75) 40 55 10\<bar> \<le> 1 / 2)"
  using computeTotalScore_range[of 70 70 100 0 None False]
    computeTotalScore_range[of 100 40 55 10 "Some 75" True]
  by simp

subsection \<open>A tie that goes down\<close>

text \<open>
  Where the weighted sum is exactly halfway between two integers, the computed binary64
  sum can fall just below it, and \<open>Math.round\<close> then rounds down: for the sub-scores
  1, 7, 2 and the penalty 7, with reach unavailable, the weighted sum is 1.5 and the
  result is 1.
\<close>

lemma tie_p1: "fmul (lit (40 / 100)) (Fin 1) = Fin (3602879701896397 / 9007199254740992)"
  unfolding lit_040 using to_number_eqI[of "3602879701896397 / 9007199254740992" "- 2" 7205759403792794] by simp

lemma tie_p2: "fmul (lit (25 / 100)) (Fin 7) = Fin (7 / 4)"
  unfolding lit_025 using to_number_eqI[of "7 / 4" "0" 7881299347898368] by simp

lemma tie_s1: "fadd (Fin (3602879701896397 / 9007199254740992)) (Fin (7 / 4)) = Fin (4841369599423283 / 2251799813685248)"
  using to_number_eqI[of "19365478397693133 / 9007199254740992" "1" 4841369599423283] by simp

lemma tie_p3: "fmul (lit (20 / 100)) (Fin 2) = Fin (3602879701896397 / 9007199254740992)"
  unfolding lit_020 using to_number_eqI[of "3602879701896397 / 9007199254740992" "- 2" 7205759403792794] by simp

lemma tie_s2: "fadd (Fin (4841369599423283 / 2251799813685248)) (Fin (3602879701896397 / 9007199254740992)) = Fin (2871044762448691 / 1125899906842624)"
  using to_number_eqI[of "22968358099589529 / 9007199254740992" "1" 5742089524897382] by simp

lemma tie_p4: "fmul (lit (15 / 100)) (Fin 7) = Fin (4728779608739021 / 4503599627370496)"
  unfolding lit_015 using to_number_eqI[of "37830236869912165 / 36028797018963968" "0" 4728779608739021] by simp

lemma tie_y: "fsub (Fin (2871044762448691 / 1125899906842624)) (Fin (4728779608739021 / 4503599627370496)) = Fin (6755399441055743 / 4503599627370496)"
  unfolding fsub_def using to_number_eqI[of "6755399441055743 / 4503599627370496" "0" 6755399441055743] by simp

lemma tie_floor: "\<lfloor>(9007199254740991 / 4503599627370496 :: rat)\<rfloor> = 1"
  by (rule floor_unique) simp_all

lemma computeTotalScore_half_down:
  "computeTotalScore (Fin 1) None (Fin 7) (Fin 2) (Fin 7) False = Fin 1
   \<and> weighted_sum 1 None 7 2 7 = 3 / 2"
  unfolding computeTotalScore_def Let_def tie_p1 tie_p2 tie_s1 tie_p3 tie_s2 tie_p4 tie_y
  by (simp add: clamp_Fin weighted_sum_def tie_floor)

end
